theory Spec2Isabelle
  imports Main "HOL-Library.Word" "HOL-Library.Sublist"
begin

section \<open>JavaScript strings\<close>

text \<open>
  A JavaScript string is a sequence of UTF-16 code units. The string literals of
  \<^verbatim>\<open>script.js\<close> are ASCII apart from a few pictographs and the copyright sign, which
  are written out below as their code units. \<open>lit\<close> turns an ASCII literal into a
  JavaScript string.
\<close>

type_synonym jsstring = "16 word list"

definition lit :: "string \<Rightarrow> jsstring" where
  "lit s = map of_char s"

text \<open>
  \<^verbatim>\<open>String.prototype.trim\<close> removes the code units of the ECMAScript productions
  WhiteSpace and LineTerminator from both ends of a string.
\<close>

definition isWhiteSpace :: "16 word \<Rightarrow> bool" where
  "isWhiteSpace u = (u \<in> set [0x0009, 0x000A, 0x000B, 0x000C, 0x000D, 0x0020, 0x00A0,
     0x1680, 0x2000, 0x2001, 0x2002, 0x2003, 0x2004, 0x2005, 0x2006, 0x2007, 0x2008,
     0x2009, 0x200A, 0x2028, 0x2029, 0x202F, 0x205F, 0x3000, 0xFEFF])"

definition trim :: "jsstring \<Rightarrow> jsstring" where
  "trim s = rev (dropWhile isWhiteSpace (rev (dropWhile isWhiteSpace s)))"

text \<open>\<^verbatim>\<open>Array.prototype.indexOf\<close>: the first position of a value, or \<open>-1\<close>.\<close>

fun indexOfFrom :: "int \<Rightarrow> 'a list \<Rightarrow> 'a \<Rightarrow> int" where
  "indexOfFrom i [] v = -1"
| "indexOfFrom i (x # xs) v = (if x = v then i else indexOfFrom (i + 1) xs v)"

definition indexOf :: "'a list \<Rightarrow> 'a \<Rightarrow> int" where
  "indexOf xs v = indexOfFrom 0 xs v"

text \<open>
  \<^verbatim>\<open>xs.splice(index, 1)\<close> for an integer \<open>index\<close>: a negative start counts from the end,
  a start beyond the end is clamped to the length, and at most one element is removed.
\<close>

definition splice1 :: "int \<Rightarrow> 'a list \<Rightarrow> 'a list" where
  "splice1 index xs =
     (let len = int (length xs);
          actualStart = (if index < 0 then max (len + index) 0 else min index len);
          actualDeleteCount = min (max 1 0) (len - actualStart)
      in take (nat actualStart) xs @ drop (nat (actualStart + actualDeleteCount)) xs)"

section \<open>The portfolio snapshot\<close>

record project =
  p_name :: jsstring
  p_desc :: jsstring
  p_image :: jsstring
  p_link :: jsstring
  p_github :: jsstring

text \<open>The \<open>image\<close> of a certificate is \<^verbatim>\<open>null\<close> or the data URI of the attached file.\<close>

record certificate =
  c_name :: jsstring
  c_issuer :: jsstring
  c_image :: "jsstring option"

record work =
  w_title :: jsstring
  w_company :: jsstring
  w_desc :: jsstring

record snapshot =
  fullName :: jsstring
  email :: jsstring
  title :: jsstring
  bio :: jsstring
  profileImage :: jsstring
  domain :: jsstring
  experience :: jsstring
  skills :: "jsstring list"
  projects :: "project list"
  certificates :: "certificate list"
  workExperience :: "work list"
  education :: jsstring
  phone :: jsstring
  location :: jsstring
  linkedin :: jsstring
  github :: jsstring
  website :: jsstring
  twitter :: jsstring
  theme :: jsstring

section \<open>Theme palettes\<close>

text \<open>The field \<^verbatim>\<open>text\<close> of a palette is called \<open>textColor\<close> here.\<close>

record palette =
  primary :: jsstring
  secondary :: jsstring
  bg :: jsstring
  cardBg :: jsstring
  textColor :: jsstring

definition themeColorsDark :: palette where
  "themeColorsDark = \<lparr>primary = lit ''#667eea'', secondary = lit ''#764ba2'',
     bg = lit ''#0f0f1e'', cardBg = lit ''#1a1a2e'', textColor = lit ''#ffffff''\<rparr>"

definition themeColors :: "(string \<times> palette) list" where
  "themeColors =
    [(''dark'', themeColorsDark),
     (''blue'', \<lparr>primary = lit ''#3b82f6'', secondary = lit ''#1e40af'', bg = lit ''#0f172a'',
        cardBg = lit ''#1e293b'', textColor = lit ''#ffffff''\<rparr>),
     (''green'', \<lparr>primary = lit ''#10b981'', secondary = lit ''#047857'', bg = lit ''#064e3b'',
        cardBg = lit ''#065f46'', textColor = lit ''#ffffff''\<rparr>),
     (''orange'', \<lparr>primary = lit ''#f97316'', secondary = lit ''#ea580c'', bg = lit ''#431407'',
        cardBg = lit ''#7c2d12'', textColor = lit ''#ffffff''\<rparr>),
     (''pink'', \<lparr>primary = lit ''#ec4899'', secondary = lit ''#be185d'', bg = lit ''#500724'',
        cardBg = lit ''#831843'', textColor = lit ''#ffffff''\<rparr>)]"

text \<open>
  \<open>themeColors\<close> is an object literal, so \<^verbatim>\<open>themeColors[name]\<close> is a property read: it
  finds the five own properties and, failing those, the properties every object inherits
  from \<^verbatim>\<open>Object.prototype\<close>. Each inherited member is a function or an object, hence
  truthy, and none of them has a property called \<^verbatim>\<open>primary\<close>, \<^verbatim>\<open>secondary\<close>, \<^verbatim>\<open>bg\<close>,
  \<^verbatim>\<open>cardBg\<close> or \<^verbatim>\<open>text\<close>.
\<close>

definition objectPrototypeNames :: "string list" where
  "objectPrototypeNames =
    [''constructor'', ''hasOwnProperty'', ''isPrototypeOf'', ''propertyIsEnumerable'',
     ''toLocaleString'', ''toString'', ''valueOf'', ''__proto__'', ''__defineGetter__'',
     ''__defineSetter__'', ''__lookupGetter__'', ''__lookupSetter__'']"

datatype colors = Palette palette | PrototypeMember

fun lookupOwn :: "(string \<times> palette) list \<Rightarrow> jsstring \<Rightarrow> palette option" where
  "lookupOwn [] name = None"
| "lookupOwn ((k, p) # kps) name = (if name = lit k then Some p else lookupOwn kps name)"

definition getProperty :: "jsstring \<Rightarrow> colors option" where
  "getProperty name =
     (case lookupOwn themeColors name of
        Some p \<Rightarrow> Some (Palette p)
      | None \<Rightarrow> if name \<in> set (map lit objectPrototypeNames) then Some PrototypeMember else None)"

text \<open>\<^verbatim>\<open>var colors = themeColors[data.theme] || themeColors.dark\<close>\<close>

definition selectColors :: "jsstring \<Rightarrow> colors" where
  "selectColors name = (case getProperty name of Some v \<Rightarrow> v | None \<Rightarrow> Palette themeColorsDark)"

text \<open>
  \<^verbatim>\<open>'...' + colors.primary\<close>: a missing property reads as \<^verbatim>\<open>undefined\<close>, which string
  concatenation spells out.
\<close>

fun color :: "colors \<Rightarrow> (palette \<Rightarrow> jsstring) \<Rightarrow> jsstring" where
  "color (Palette p) field = field p"
| "color PrototypeMember field = lit ''undefined''"

section \<open>The document generator\<close>

subsection \<open>The repeated items\<close>

definition skillTag :: "jsstring \<Rightarrow> jsstring" where
  \<open>skillTag s =
     (lit ''<span class="skill-tag">'' @
      s @
      lit ''</span>'')\<close>

definition skillsHTML :: "jsstring list \<Rightarrow> jsstring" where
  "skillsHTML xs = foldl (\<lambda>html s. html @ skillTag s) [] xs"

definition projectCard :: "project \<Rightarrow> jsstring" where
  \<open>projectCard p =
     lit ''<div class="project-card">'' @
     (if p_image p \<noteq> [] then
     (lit ''<img src="'' @
      p_image p @
      lit ''" alt="'' @
      p_name p @
      lit ''" class="project-img">'')
      else []) @
     (lit ''<div class="project-content"><h3>'' @
      p_name p @
      lit ''</h3><p>'' @
      p_desc p @
      lit ''</p><div class="project-links">'') @
     (if p_link p \<noteq> [] then
     (lit ''<a href="'' @
      p_link p @
      lit ''" target="_blank" class="project-btn">Live Demo</a>'')
      else []) @
     (if p_github p \<noteq> [] then
     (lit ''<a href="'' @
      p_github p @
      lit ''" target="_blank" class="project-btn">GitHub</a>'')
      else []) @
     lit ''</div></div></div>''\<close>

definition projectsHTML :: "project list \<Rightarrow> jsstring" where
  "projectsHTML ps = foldl (\<lambda>html p. html @ projectCard p) [] ps"

text \<open>The pictograph of a certificate without an image is U+1F3C6.\<close>

definition certImageOrIcon :: "certificate \<Rightarrow> jsstring" where
  \<open>certImageOrIcon ct =
     (case c_image ct of
        None \<Rightarrow>
     (lit ''<div class="cert-icon">'' @
      [0xD83C, 0xDFC6] @
      lit ''</div>'')
      | Some img \<Rightarrow>
          if img \<noteq> [] then
     (lit ''<img src="'' @
      img @
      lit ''" alt="'' @
      c_name ct @
      lit ''" class="cert-image">'')
          else
     (lit ''<div class="cert-icon">'' @
      [0xD83C, 0xDFC6] @
      lit ''</div>''))\<close>

definition certItem :: "certificate \<Rightarrow> jsstring" where
  \<open>certItem ct =
     lit ''<div class="cert-item">'' @
     certImageOrIcon ct @
     (lit ''<div><h4>'' @
      c_name ct @
      lit ''</h4><p>'' @
      c_issuer ct @
      lit ''</p></div></div>'')\<close>

definition certsHTML :: "certificate list \<Rightarrow> jsstring" where
  "certsHTML cs = foldl (\<lambda>html ct. html @ certItem ct) [] cs"

definition workItem :: "work \<Rightarrow> jsstring" where
  \<open>workItem w =
     (lit ''<div class="work-item"><h4>'' @
      w_title w @
      lit ''</h4><p class="company">'' @
      w_company w @
      lit ''</p><p>'' @
      w_desc w @
      lit ''</p></div>'')\<close>

definition workHTML :: "work list \<Rightarrow> jsstring" where
  "workHTML ws = foldl (\<lambda>html w. html @ workItem w) [] ws"

subsection \<open>The embedded style sheet\<close>

definition styleBase :: "snapshot \<Rightarrow> colors \<Rightarrow> jsstring" where
  \<open>styleBase d c =
     (lit (''<!DOCTYPE html><html lang="en"><head><meta charset="UTF-8">'' @
           ''<meta name="viewport" content="width=device-width, initial-scale=1.0">'' @
           ''<title>'') @
      fullName d @
      lit ('' - Portfolio</title><style>*{margin:0;padding:0;box-sizing:border-box}'' @
           ''body{font-family:"Segoe UI",system-ui,sans-serif;background:'') @
      color c bg @
      lit '';color:'' @
      color c textColor @
      lit '';line-height:1.6}a{color:'' @
      color c primary @
      lit ('';text-decoration:none}.container{max-width:1200px;margin:0 auto;padding:0 '' @
           ''20px}header{background:linear-gradient(135deg,'') @
      color c primary @
      lit '','' @
      color c secondary @
      lit ('');padding:100px 20px;text-align:center;position:relative;overflow:hidden}'' @
           ''header::before{content:"";position:absolute;top:-50%;right:-50%;width:100%;'' @
           ''height:100%;background:rgba(255,255,255,0.1);transform:rotate(45deg)}''))\<close>

definition styleProfile :: "colors \<Rightarrow> jsstring" where
  \<open>styleProfile c =
     (lit (''.profile-img{width:150px;height:150px;border-radius:50%;border:5px solid '' @
           ''rgba(255,255,255,0.3);object-fit:cover;margin-bottom:20px}'' @
           ''h1{font-size:3rem;margin-bottom:10px;text-shadow:2px 2px 4px rgba(0,0,0,'' @
           ''0.3)}@media(max-width:768px){h1{font-size:2rem}}'' @
           ''.tagline{font-size:1.3rem;opacity:0.95;margin-bottom:15px}'' @
           ''.bio{max-width:700px;margin:20px auto;opacity:0.9;font-size:1.1rem}'' @
           ''section{padding:80px 20px}.section-title{font-size:2.5rem;'' @
           ''margin-bottom:40px;text-align:center;background:linear-gradient(135deg,'') @
      color c primary @
      lit '','' @
      color c secondary @
      lit ('');-webkit-background-clip:text;-webkit-text-fill-color:transparent;'' @
           ''background-clip:text}''))\<close>

definition styleSkills :: "colors \<Rightarrow> jsstring" where
  \<open>styleSkills c =
     (lit (''.skills-grid{display:flex;flex-wrap:wrap;gap:15px;justify-content:center;'' @
           ''max-width:800px;margin:0 auto}.skill-tag{background:'') @
      color c cardBg @
      lit '';padding:12px 24px;border-radius:30px;border:2px solid '' @
      color c primary @
      lit ('';font-weight:500;transition:all 0.3s}'' @
           ''.skill-tag:hover{transform:translateY(-3px);box-shadow:0 5px 15px rgba(102,'' @
           ''126,234,0.3)}''))\<close>

definition styleProjects :: "colors \<Rightarrow> jsstring" where
  \<open>styleProjects c =
     (lit (''.projects-grid{display:grid;grid-template-columns:repeat(auto-fit,'' @
           ''minmax(350px,1fr));gap:30px;margin-top:40px}.project-card{background:'') @
      color c cardBg @
      lit ('';border-radius:15px;overflow:hidden;transition:transform 0.3s,box-shadow '' @
           ''0.3s;border:1px solid rgba(255,255,255,0.1)}'' @
           ''.project-card:hover{transform:translateY(-10px);box-shadow:0 15px 40px '' @
           ''rgba(0,0,0,0.3)}.project-img{width:100%;height:200px;object-fit:cover}'' @
           ''.project-content{padding:25px}.project-content h3{color:'') @
      color c primary @
      lit ('';margin-bottom:10px;font-size:1.5rem}'' @
           ''.project-content p{opacity:0.9;margin-bottom:15px}'' @
           ''.project-links{display:flex;gap:10px;margin-top:15px}'' @
           ''.project-btn{background:'') @
      color c primary @
      lit ('';color:#fff;padding:10px 20px;border-radius:8px;transition:all 0.3s}'' @
           ''.project-btn:hover{background:'') @
      color c secondary @
      lit '';transform:scale(1.05)}'')\<close>

definition styleCerts :: "colors \<Rightarrow> jsstring" where
  \<open>styleCerts c =
     (lit (''.certs-grid{display:grid;grid-template-columns:repeat(auto-fit,minmax(300px,'' @
           ''1fr));gap:25px;max-width:1000px;margin:0 auto}.cert-item{background:'') @
      color c cardBg @
      lit ('';padding:25px;border-radius:12px;display:flex;gap:20px;align-items:center;'' @
           ''border-left:4px solid '') @
      color c primary @
      lit (''}.cert-icon{font-size:2.5rem}.cert-image{width:80px;height:80px;'' @
           ''object-fit:cover;border-radius:8px;border:2px solid '') @
      color c primary @
      lit '';flex-shrink:0}.cert-item h4{color:'' @
      color c primary @
      lit '';margin-bottom:5px}.cert-item p{opacity:0.8;font-size:0.95rem}'')\<close>

definition styleWork :: "colors \<Rightarrow> jsstring" where
  \<open>styleWork c =
     (lit ''.work-timeline{max-width:800px;margin:0 auto}.work-item{background:'' @
      color c cardBg @
      lit '';padding:30px;border-radius:12px;margin-bottom:25px;border-left:4px solid '' @
      color c primary @
      lit ''}.work-item h4{color:'' @
      color c primary @
      lit ('';font-size:1.4rem;margin-bottom:8px}'' @
           ''.company{font-weight:600;opacity:0.9;margin-bottom:10px}'' @
           ''.work-item p{opacity:0.85}''))\<close>

definition styleContact :: "colors \<Rightarrow> jsstring" where
  \<open>styleContact c =
     (lit ''.contact-section{background:'' @
      color c cardBg @
      lit ('';border-radius:20px;padding:50px;text-align:center;margin:40px auto;'' @
           ''max-width:800px}.contact-grid{display:flex;flex-wrap:wrap;gap:20px;'' @
           ''justify-content:center;margin-top:30px}'' @
           ''.contact-item{background:rgba(255,255,255,0.05);padding:15px 30px;'' @
           ''border-radius:10px;display:flex;align-items:center;gap:10px;transition:all '' @
           ''0.3s;border:1px solid rgba(255,255,255,0.1)}.contact-item:hover{background:'') @
      color c primary @
      lit '';transform:translateY(-3px)}'')\<close>

definition styleFooter :: jsstring where
  \<open>styleFooter =
     (lit (''footer{text-align:center;padding:40px;opacity:0.7;border-top:1px solid '' @
           ''rgba(255,255,255,0.1)}@media(max-width:768px){.projects-grid,'' @
           ''.certs-grid{grid-template-columns:1fr}.section-title{font-size:2rem}'' @
           ''section{padding:50px 20px}}</style></head><body>''))\<close>

subsection \<open>Header, sections, contact block and footer\<close>

definition headerName :: "snapshot \<Rightarrow> jsstring" where
  \<open>headerName d =
     (lit ''<h1>'' @
      fullName d @
      lit ''</h1><p class="tagline">'' @
      title d @
      lit ''</p>'')\<close>

definition headerHTML :: "snapshot \<Rightarrow> jsstring" where
  \<open>headerHTML d =
     lit ''<header><div class="container">'' @
     (if profileImage d \<noteq> [] then
     (lit ''<img src="'' @
      profileImage d @
      lit ''" alt="'' @
      fullName d @
      lit ''" class="profile-img">'')
      else []) @
     headerName d @
     (if experience d \<noteq> [] then
     (lit ''<p style="opacity:0.9;margin-top:10px">'' @
      [0xD83C, 0xDFAF] @
      lit '' '' @
      experience d @
      lit '' Experience</p>'')
      else []) @
     (if bio d \<noteq> [] then
     (lit ''<p class="bio">'' @
      bio d @
      lit ''</p>'')
      else []) @
     lit ''</div></header>''\<close>

definition skillsSection :: "snapshot \<Rightarrow> jsstring" where
  \<open>skillsSection d =
     (if 0 < length (skills d) then
     (lit (''<section><h2 class="section-title">Skills & Expertise</h2>'' @
           ''<div class="skills-grid">'') @
      skillsHTML (skills d) @
      lit ''</div></section>'')
      else [])\<close>

definition projectsSection :: "snapshot \<Rightarrow> jsstring" where
  \<open>projectsSection d =
     (if 0 < length (projects d) then
     (lit (''<section><h2 class="section-title">Featured Projects</h2>'' @
           ''<div class="projects-grid">'') @
      projectsHTML (projects d) @
      lit ''</div></section>'')
      else [])\<close>

definition workSection :: "snapshot \<Rightarrow> jsstring" where
  \<open>workSection d =
     (if 0 < length (workExperience d) then
     (lit (''<section><h2 class="section-title">Work Experience</h2>'' @
           ''<div class="work-timeline">'') @
      workHTML (workExperience d) @
      lit ''</div></section>'')
      else [])\<close>

definition certsSection :: "snapshot \<Rightarrow> jsstring" where
  \<open>certsSection d =
     (if 0 < length (certificates d) then
     (lit (''<section><h2 class="section-title">Certificates & Achievements</h2>'' @
           ''<div class="certs-grid">'') @
      certsHTML (certificates d) @
      lit ''</div></section>'')
      else [])\<close>

definition educationSection :: "snapshot \<Rightarrow> colors \<Rightarrow> jsstring" where
  \<open>educationSection d c =
     (if education d \<noteq> [] then
     (lit (''<section><h2 class="section-title">Education</h2>'' @
           ''<div style="max-width:600px;margin:0 auto;background:'') @
      color c cardBg @
      lit '';padding:25px;border-radius:12px;border-left:4px solid '' @
      color c primary @
      lit ''"><p style="font-size:1.1rem">'' @
      education d @
      lit ''</p></div></section>'')
      else [])\<close>

definition contactOpen :: jsstring where
  \<open>contactOpen =
     (lit (''<section class="contact-section"><h2 class="section-title">Get In Touch</h2>'' @
           ''<p style="opacity:0.9;margin-bottom:20px">'' @
           ''Let's connect and discuss opportunities!</p><div class="contact-grid">''))\<close>

definition contactEmail :: "snapshot \<Rightarrow> jsstring" where
  \<open>contactEmail d =
     (if email d \<noteq> [] then
     (lit ''<a href="mailto:'' @
      email d @
      lit ''" class="contact-item">'' @
      [0xD83D, 0xDCE7] @
      lit '' Email</a>'')
      else [])\<close>

definition contactPhone :: "snapshot \<Rightarrow> jsstring" where
  \<open>contactPhone d =
     (if phone d \<noteq> [] then
     (lit ''<a href="tel:'' @
      phone d @
      lit ''" class="contact-item">'' @
      [0xD83D, 0xDCF1] @
      lit '' Phone</a>'')
      else [])\<close>

definition contactLocation :: "snapshot \<Rightarrow> jsstring" where
  \<open>contactLocation d =
     (if location d \<noteq> [] then
     (lit ''<span class="contact-item">'' @
      [0xD83D, 0xDCCD] @
      lit '' '' @
      location d @
      lit ''</span>'')
      else [])\<close>

definition contactLinkedin :: "snapshot \<Rightarrow> jsstring" where
  \<open>contactLinkedin d =
     (if linkedin d \<noteq> [] then
     (lit ''<a href="'' @
      linkedin d @
      lit ''" target="_blank" class="contact-item">'' @
      [0xD83D, 0xDCBC] @
      lit '' LinkedIn</a>'')
      else [])\<close>

definition contactGithub :: "snapshot \<Rightarrow> jsstring" where
  \<open>contactGithub d =
     (if github d \<noteq> [] then
     (lit ''<a href="'' @
      github d @
      lit ''" target="_blank" class="contact-item">'' @
      [0xD83D, 0xDCBB] @
      lit '' GitHub</a>'')
      else [])\<close>

definition contactWebsite :: "snapshot \<Rightarrow> jsstring" where
  \<open>contactWebsite d =
     (if website d \<noteq> [] then
     (lit ''<a href="'' @
      website d @
      lit ''" target="_blank" class="contact-item">'' @
      [0xD83C, 0xDF10] @
      lit '' Website</a>'')
      else [])\<close>

definition contactTwitter :: "snapshot \<Rightarrow> jsstring" where
  \<open>contactTwitter d =
     (if twitter d \<noteq> [] then
     (lit ''<a href="'' @
      twitter d @
      lit ''" target="_blank" class="contact-item">'' @
      [0xD83D, 0xDC26] @
      lit '' Twitter</a>'')
      else [])\<close>

definition contactEntries :: "snapshot \<Rightarrow> jsstring" where
  "contactEntries d =
     contactEmail d @ contactPhone d @ contactLocation d @ contactLinkedin d @
     contactGithub d @ contactWebsite d @ contactTwitter d"

definition contactClose :: jsstring where
  \<open>contactClose =
     lit ''</div></section></div>''\<close>

definition footerHTML :: "snapshot \<Rightarrow> jsstring" where
  \<open>footerHTML d =
     (lit ''<footer><p>'' @
      [0x00A9] @
      lit '' 2024 '' @
      fullName d @
      lit (''. All rights reserved.</p><p style="margin-top:10px;font-size:0.9rem">'' @
           ''Built with Professional Portfolio Builder</p></footer></body></html>''))\<close>

subsection \<open>The whole document\<close>

text \<open>
  The value of the local variable \<^verbatim>\<open>portfolioHTML\<close> once the last \<^verbatim>\<open>+=\<close> of
  \<^verbatim>\<open>generatePortfolioHTML\<close> has run.
\<close>

definition portfolioHTML :: "snapshot \<Rightarrow> jsstring" where
  \<open>portfolioHTML d =
     (let c = selectColors (theme d) in
      styleBase d c @ styleProfile c @ styleSkills c @ styleProjects c @ styleCerts c @
      styleWork c @ styleContact c @ styleFooter @
      headerHTML d @
     lit ''<div class="container">'' @
      skillsSection d @ projectsSection d @ workSection d @ certsSection d @
      educationSection d c @
      contactOpen @ contactEntries d @ contactClose @
      footerHTML d)\<close>

section \<open>The wizard and its page\<close>

text \<open>
  The five global variables of the builder, together with the part of the page that its
  functions read and write. The markup of the page is not part of the sources; the
  step sections are therefore a component of the state: \<open>stepSections\<close> lists, in
  document order, the elements that carry a \<^verbatim>\<open>data-step\<close> attribute, each with the number
  in that attribute and the values of the required \<^verbatim>\<open>input\<close>, \<^verbatim>\<open>select\<close> and
  \<^verbatim>\<open>textarea\<close> elements inside it. Elements addressed by their id are taken to exist.
  Numbers are integers far below \<open>2^53\<close>, where JavaScript arithmetic is exact. Purely
  visual updates (the progress bar, the rendered lists, the selection marks of the cards)
  are left out. \<open>alerts\<close> records the messages shown by \<^verbatim>\<open>alert\<close>, \<open>focused\<close> the step and
  the position of the control that received the focus last, \<open>pendingReads\<close> the file reads
  in flight and \<open>timers\<close> the callbacks handed to \<^verbatim>\<open>setTimeout\<close> that have not run yet.
\<close>

record upload =
  fileSize :: nat
  fileDataURL :: jsstring

datatype timer = DownloadOffer jsstring jsstring | ResetForm

record page =
  portfolioCurrentStep :: int
  portfolioSkills :: "jsstring list"
  portfolioCertificates :: "certificate list"
  portfolioWorkExperience :: "work list"
  portfolioProjectCount :: int
  stepSections :: "(int \<times> jsstring list) list"
  portfolioSelectedDomain :: jsstring
  portfolioSkillInput :: jsstring
  portfolioCertName :: jsstring
  portfolioCertIssuer :: jsstring
  portfolioCertImage :: "upload option"
  portfolioWorkTitle :: jsstring
  portfolioWorkCompany :: jsstring
  portfolioWorkDesc :: jsstring
  activeStep :: "int option"
  prevBtnShown :: bool
  nextBtnShown :: bool
  createBtnShown :: bool
  focused :: "(int \<times> nat) option"
  alerts :: "jsstring list"
  pendingReads :: "(certificate \<times> upload) list"
  modalActive :: bool
  previews :: "jsstring list"
  downloads :: "(jsstring \<times> jsstring) list"
  timers :: "timer list"

definition portfolioTotalSteps :: int where
  "portfolioTotalSteps = 8"

text \<open>
  \<^verbatim>\<open>document.querySelector('[data-step="' + step + '"]')\<close> yields the first matching
  element or \<^verbatim>\<open>null\<close>; of the element only its required controls are used.
\<close>

fun querySection :: "(int \<times> jsstring list) list \<Rightarrow> int \<Rightarrow> jsstring list option" where
  "querySection [] step = None"
| "querySection ((k, inputs) # rest) step = (if k = step then Some inputs else querySection rest step)"

definition requiredInputs :: "page \<Rightarrow> int \<Rightarrow> jsstring list option" where
  "requiredInputs s step = querySection (stepSections s) step"

text \<open>
  A call either returns or throws the \<^verbatim>\<open>TypeError\<close> of a property read on \<^verbatim>\<open>null\<close>;
  the state reached up to the throw is kept.
\<close>

datatype 'a completion = Normal 'a | TypeError

definition openPortfolioModal :: "page \<Rightarrow> page" where
  "openPortfolioModal s = s\<lparr>modalActive := True\<rparr>"

definition closePortfolioModal :: "page \<Rightarrow> page" where
  "closePortfolioModal s = s\<lparr>modalActive := False\<rparr>"

definition showPortfolioStep :: "int \<Rightarrow> page \<Rightarrow> unit completion \<times> page" where
  "showPortfolioStep step s =
     (let s1 = s\<lparr>activeStep := None\<rparr> in
      case requiredInputs s1 step of
        None \<Rightarrow> (TypeError, s1)
      | Some _ \<Rightarrow>
          (Normal (),
           s1\<lparr>activeStep := Some step,
              prevBtnShown := (step \<noteq> 1),
              nextBtnShown := (step \<noteq> portfolioTotalSteps),
              createBtnShown := (step = portfolioTotalSteps)\<rparr>))"

text \<open>The loop of \<^verbatim>\<open>validatePortfolioStep\<close>: the index of the first blank required control.\<close>

fun firstBlank :: "nat \<Rightarrow> jsstring list \<Rightarrow> nat option" where
  "firstBlank i [] = None"
| "firstBlank i (v # vs) = (if trim v = [] then Some i else firstBlank (Suc i) vs)"

definition validatePortfolioStep :: "int \<Rightarrow> page \<Rightarrow> bool completion \<times> page" where
  "validatePortfolioStep step s =
     (case requiredInputs s step of
        None \<Rightarrow> (TypeError, s)
      | Some inputs \<Rightarrow>
          (case firstBlank 0 inputs of
             Some i \<Rightarrow>
               (Normal False,
                s\<lparr>alerts := alerts s @ [lit ''Please fill in all required fields''],
                  focused := Some (step, i)\<rparr>)
           | None \<Rightarrow>
               if step = 2 \<and> portfolioSelectedDomain s = [] then
                 (Normal False, s\<lparr>alerts := alerts s @ [lit ''Please select a domain'']\<rparr>)
               else (Normal True, s)))"

definition nextPortfolioStep :: "page \<Rightarrow> unit completion \<times> page" where
  "nextPortfolioStep s =
     (case validatePortfolioStep (portfolioCurrentStep s) s of
        (TypeError, s1) \<Rightarrow> (TypeError, s1)
      | (Normal False, s1) \<Rightarrow> (Normal (), s1)
      | (Normal True, s1) \<Rightarrow>
          (let s2 = s1\<lparr>portfolioCurrentStep := portfolioCurrentStep s1 + 1\<rparr>
           in showPortfolioStep (portfolioCurrentStep s2) s2))"

definition previousPortfolioStep :: "page \<Rightarrow> unit completion \<times> page" where
  "previousPortfolioStep s =
     (let s1 = s\<lparr>portfolioCurrentStep := portfolioCurrentStep s - 1\<rparr>
      in showPortfolioStep (portfolioCurrentStep s1) s1)"

definition selectPortfolioDomain :: "jsstring \<Rightarrow> page \<Rightarrow> page" where
  "selectPortfolioDomain chosen s = s\<lparr>portfolioSelectedDomain := chosen\<rparr>"

definition addPortfolioSkill :: "page \<Rightarrow> page" where
  "addPortfolioSkill s =
     (let skill = trim (portfolioSkillInput s) in
      if skill \<noteq> [] \<and> indexOf (portfolioSkills s) skill = -1 then
        s\<lparr>portfolioSkills := portfolioSkills s @ [skill], portfolioSkillInput := []\<rparr>
      else s)"

definition removePortfolioSkill :: "int \<Rightarrow> page \<Rightarrow> page" where
  "removePortfolioSkill index s = s\<lparr>portfolioSkills := splice1 index (portfolioSkills s)\<rparr>"

text \<open>
  A certificate with an image is appended by the \<^verbatim>\<open>onload\<close> callback of the file reader;
  until then the read is pending. The three controls are cleared on every path but the
  early \<^verbatim>\<open>return\<close> of the size check.
\<close>

definition addPortfolioCertificate :: "page \<Rightarrow> page" where
  "addPortfolioCertificate s =
     (let name = trim (portfolioCertName s);
          issuer = trim (portfolioCertIssuer s);
          imageFile = portfolioCertImage s
      in if name \<noteq> [] \<and> issuer \<noteq> [] then
           (let cert = \<lparr>c_name = name, c_issuer = issuer, c_image = None\<rparr> in
            case imageFile of
              Some f \<Rightarrow>
                if fileSize f > 5 * 1024 * 1024 then
                  s\<lparr>alerts := alerts s @ [lit ''Image file size should be less than 5MB'']\<rparr>
                else
                  s\<lparr>pendingReads := pendingReads s @ [(cert, f)],
                    portfolioCertName := [], portfolioCertIssuer := [],
                    portfolioCertImage := None\<rparr>
            | None \<Rightarrow>
                s\<lparr>portfolioCertificates := portfolioCertificates s @ [cert],
                  portfolioCertName := [], portfolioCertIssuer := [],
                  portfolioCertImage := None\<rparr>)
         else s)"

text \<open>The \<^verbatim>\<open>onload\<close> callback of the \<open>k\<close>-th pending read.\<close>

definition readerOnload :: "nat \<Rightarrow> page \<Rightarrow> page" where
  "readerOnload k s =
     (if k < length (pendingReads s) then
        (case pendingReads s ! k of
           (cert, f) \<Rightarrow>
             s\<lparr>pendingReads := take k (pendingReads s) @ drop (Suc k) (pendingReads s),
               portfolioCertificates :=
                 portfolioCertificates s @ [cert\<lparr>c_image := Some (fileDataURL f)\<rparr>]\<rparr>)
      else s)"

definition removePortfolioCert :: "int \<Rightarrow> page \<Rightarrow> page" where
  "removePortfolioCert index s =
     s\<lparr>portfolioCertificates := splice1 index (portfolioCertificates s)\<rparr>"

definition addPortfolioWork :: "page \<Rightarrow> page" where
  "addPortfolioWork s =
     (let title = trim (portfolioWorkTitle s);
          company = trim (portfolioWorkCompany s);
          desc = trim (portfolioWorkDesc s)
      in if title \<noteq> [] \<and> company \<noteq> [] then
           s\<lparr>portfolioWorkExperience :=
                portfolioWorkExperience s @ [\<lparr>w_title = title, w_company = company, w_desc = desc\<rparr>],
             portfolioWorkTitle := [], portfolioWorkCompany := [], portfolioWorkDesc := []\<rparr>
         else s)"

definition removePortfolioWork :: "int \<Rightarrow> page \<Rightarrow> page" where
  "removePortfolioWork index s =
     s\<lparr>portfolioWorkExperience := splice1 index (portfolioWorkExperience s)\<rparr>"

text \<open>
  Of \<^verbatim>\<open>addPortfolioProjectField\<close> the counter is kept; the card it inserts changes the
  required controls of the section around the projects container, which is an edit of
  \<open>stepSections\<close>.
\<close>

definition addPortfolioProjectField :: "(int \<times> jsstring list) list \<Rightarrow> page \<Rightarrow> page" where
  "addPortfolioProjectField withCard s =
     s\<lparr>portfolioProjectCount := portfolioProjectCount s + 1, stepSections := withCard\<rparr>"

subsection \<open>Generation and its timers\<close>

text \<open>\<^verbatim>\<open>name.replace(/\s+/g, '_')\<close>: every maximal run of white space becomes one underscore.\<close>

function replaceSpaces :: "jsstring \<Rightarrow> jsstring" where
  "replaceSpaces [] = []"
| "replaceSpaces (u # us) =
     (if isWhiteSpace u then 0x5F # replaceSpaces (dropWhile isWhiteSpace us)
      else u # replaceSpaces us)"
  by pat_completeness auto
termination
  by (relation "measure length") (auto simp: length_dropWhile_le less_Suc_eq_le)

text \<open>
  The synchronous part of \<^verbatim>\<open>generatePortfolioHTML\<close>. \<open>opened\<close> tells whether
  \<^verbatim>\<open>window.open\<close> returned a window. The download offer is scheduled only then; the reset
  of the form is scheduled always.
\<close>

definition generatePortfolioHTML :: "bool \<Rightarrow> snapshot \<Rightarrow> page \<Rightarrow> page" where
  "generatePortfolioHTML opened d s =
     (let html = portfolioHTML d;
          s1 = (if opened then
                  s\<lparr>previews := previews s @ [html],
                    timers := timers s @ [DownloadOffer html (fullName d)]\<rparr>
                else s);
          s2 = closePortfolioModal s1
      in s2\<lparr>timers := timers s2 @ [ResetForm]\<rparr>)"

text \<open>The callback after 500 ms; \<open>confirmed\<close> is the answer to the \<^verbatim>\<open>confirm\<close> dialog.\<close>

definition downloadTimeout :: "bool \<Rightarrow> jsstring \<Rightarrow> jsstring \<Rightarrow> page \<Rightarrow> page" where
  "downloadTimeout confirmed html name s =
     (if confirmed then
        s\<lparr>downloads := downloads s @ [(replaceSpaces name @ lit ''_Portfolio.html'', html)]\<rparr>
      else s)"

text \<open>
  The callback after 1000 ms. \<open>pristine\<close> supplies the values that the controls of the form
  have after \<^verbatim>\<open>form.reset()\<close>, and \<open>rebuilt\<close> the step sections once the projects
  container holds its single original card again.
\<close>

definition resetTimeout ::
  "page \<Rightarrow> (int \<times> jsstring list) list \<Rightarrow> page \<Rightarrow> unit completion \<times> page" where
  "resetTimeout pristine rebuilt s =
     (let s1 = s\<lparr>stepSections := stepSections pristine,
                portfolioSelectedDomain := portfolioSelectedDomain pristine,
                portfolioSkillInput := portfolioSkillInput pristine,
                portfolioCertName := portfolioCertName pristine,
                portfolioCertIssuer := portfolioCertIssuer pristine,
                portfolioCertImage := portfolioCertImage pristine,
                portfolioWorkTitle := portfolioWorkTitle pristine,
                portfolioWorkCompany := portfolioWorkCompany pristine,
                portfolioWorkDesc := portfolioWorkDesc pristine\<rparr>;
          s2 = s1\<lparr>portfolioSkills := [], portfolioCertificates := [],
                 portfolioWorkExperience := [], portfolioProjectCount := 1,
                 portfolioCurrentStep := 1\<rparr>
      in case showPortfolioStep 1 s2 of
           (TypeError, s3) \<Rightarrow> (TypeError, s3)
         | (Normal u, s3) \<Rightarrow> (Normal u, s3\<lparr>stepSections := rebuilt\<rparr>))"

text \<open>Running a scheduled callback.\<close>

fun fireTimer ::
  "bool \<Rightarrow> page \<Rightarrow> (int \<times> jsstring list) list \<Rightarrow> page \<Rightarrow> timer \<Rightarrow> page" where
  "fireTimer confirmed pristine rebuilt s (DownloadOffer html name) =
     downloadTimeout confirmed html name s"
| "fireTimer confirmed pristine rebuilt s ResetForm = snd (resetTimeout pristine rebuilt s)"

text \<open>
  A whole generation: the synchronous part, then the callbacks that this call has
  scheduled, in the order of their delays.
\<close>

definition generationCompleted ::
  "bool \<Rightarrow> bool \<Rightarrow> page \<Rightarrow> (int \<times> jsstring list) list \<Rightarrow> snapshot \<Rightarrow> page \<Rightarrow> page" where
  "generationCompleted opened confirmed pristine rebuilt d s =
     (let s1 = generatePortfolioHTML opened d s;
          due = drop (length (timers s)) (timers s1)
      in foldl (fireTimer confirmed pristine rebuilt) (s1\<lparr>timers := timers s\<rparr>) due)"

text \<open>The five global variables of a page.\<close>

record wizardState =
  currentStep :: int
  skillList :: "jsstring list"
  certificateList :: "certificate list"
  workList :: "work list"
  projectCount :: int

definition wizardStateOf :: "page \<Rightarrow> wizardState" where
  "wizardStateOf s =
     \<lparr>currentStep = portfolioCurrentStep s, skillList = portfolioSkills s,
      certificateList = portfolioCertificates s, workList = portfolioWorkExperience s,
      projectCount = portfolioProjectCount s\<rparr>"

text \<open>The values given to the globals by their declarations at the top of the builder.\<close>

definition initialWizardState :: wizardState where
  "initialWizardState =
     \<lparr>currentStep = 1, skillList = [], certificateList = [], workList = [], projectCount = 1\<rparr>"

text \<open>
  The page once the script has run: the globals hold their initial values, nothing has
  been entered, and the closing call \<^verbatim>\<open>showPortfolioStep(1)\<close> has been made. What the
  markup alone displays is not known; \<open>blankPage\<close> displays all three buttons.
\<close>

definition blankPage :: "(int \<times> jsstring list) list \<Rightarrow> page" where
  "blankPage sections =
     \<lparr>portfolioCurrentStep = 1, portfolioSkills = [], portfolioCertificates = [],
      portfolioWorkExperience = [], portfolioProjectCount = 1,
      stepSections = sections, portfolioSelectedDomain = [], portfolioSkillInput = [],
      portfolioCertName = [], portfolioCertIssuer = [], portfolioCertImage = None,
      portfolioWorkTitle = [], portfolioWorkCompany = [], portfolioWorkDesc = [],
      activeStep = None, prevBtnShown = True, nextBtnShown = True, createBtnShown = True,
      focused = None, alerts = [], pendingReads = [], modalActive = False,
      previews = [], downloads = [], timers = []\<rparr>"

definition loadedPage :: "(int \<times> jsstring list) list \<Rightarrow> page" where
  "loadedPage sections = snd (showPortfolioStep 1 (blankPage sections))"

text \<open>A page is well formed when its step sections are numbered 1 to 8, in this order.\<close>

definition wellFormed :: "(int \<times> jsstring list) list \<Rightarrow> bool" where
  "wellFormed sections = (map fst sections = [1, 2, 3, 4, 5, 6, 7, 8])"

text \<open>
  The pages that a visitor can bring about. The Next and the Previous button are clicked
  while they are displayed. Everything else happens at any time and in any order: typing
  into the controls of the form (which changes the values of the required controls, not
  the set of step sections), choosing a file, moving the focus, opening and closing the
  dialog, choosing a domain, adding and removing skills, certificates and work entries,
  the end of a file read, adding a project card, a generation for any snapshot, and the
  run of any callback that a generation has scheduled and that has not run yet. The form
  reset and the rebuilt projects container of the reset callback leave the set of step
  sections as it is.
\<close>

inductive visited :: "page \<Rightarrow> bool" where
  loaded: "wellFormed sections \<Longrightarrow> visited (loadedPage sections)"
| nextClicked: "visited s \<Longrightarrow> nextBtnShown s \<Longrightarrow> visited (snd (nextPortfolioStep s))"
| prevClicked: "visited s \<Longrightarrow> prevBtnShown s \<Longrightarrow> visited (snd (previousPortfolioStep s))"
| edited: "visited s \<Longrightarrow> map fst sections = map fst (stepSections s) \<Longrightarrow>
           visited (s\<lparr>stepSections := sections, portfolioSkillInput := skillText,
                      portfolioCertName := certName, portfolioCertIssuer := certIssuer,
                      portfolioCertImage := certFile, portfolioWorkTitle := workTitle,
                      portfolioWorkCompany := workCompany, portfolioWorkDesc := workDesc,
                      focused := control\<rparr>)"
| modalOpened: "visited s \<Longrightarrow> visited (openPortfolioModal s)"
| modalClosed: "visited s \<Longrightarrow> visited (closePortfolioModal s)"
| domainSelected: "visited s \<Longrightarrow> visited (selectPortfolioDomain chosen s)"
| skillAdded: "visited s \<Longrightarrow> visited (addPortfolioSkill s)"
| skillRemoved: "visited s \<Longrightarrow> visited (removePortfolioSkill i s)"
| certificateAdded: "visited s \<Longrightarrow> visited (addPortfolioCertificate s)"
| imageRead: "visited s \<Longrightarrow> visited (readerOnload k s)"
| certificateRemoved: "visited s \<Longrightarrow> visited (removePortfolioCert i s)"
| workAdded: "visited s \<Longrightarrow> visited (addPortfolioWork s)"
| workRemoved: "visited s \<Longrightarrow> visited (removePortfolioWork i s)"
| projectFieldAdded: "visited s \<Longrightarrow> map fst withCard = map fst (stepSections s) \<Longrightarrow>
           visited (addPortfolioProjectField withCard s)"
| generated: "visited s \<Longrightarrow> visited (generatePortfolioHTML opened d s)"
| timerFired: "visited s \<Longrightarrow> k < length (timers s) \<Longrightarrow>
           map fst (stepSections pristine) = map fst (stepSections s) \<Longrightarrow>
           map fst rebuilt = map fst (stepSections s) \<Longrightarrow>
           visited (fireTimer confirmed pristine rebuilt
                      (s\<lparr>timers := take k (timers s) @ drop (Suc k) (timers s)\<rparr>)
                      (timers s ! k))"

text \<open>
  The same without the buttons: the two functions called in any order, as the global
  functions they are.
\<close>

inductive called :: "page \<Rightarrow> bool" where
  atLoad: "wellFormed sections \<Longrightarrow> called (loadedPage sections)"
| nextCalled: "called s \<Longrightarrow> called (snd (nextPortfolioStep s))"
| prevCalled: "called s \<Longrightarrow> called (snd (previousPortfolioStep s))"

text \<open>The skill lists that calls of the add and remove functions can build.\<close>

inductive builtSkills :: "jsstring list \<Rightarrow> bool" where
  none: "builtSkills []"
| added: "builtSkills (portfolioSkills s) \<Longrightarrow> builtSkills (portfolioSkills (addPortfolioSkill s))"
| removed: "builtSkills (portfolioSkills s) \<Longrightarrow>
            builtSkills (portfolioSkills (removePortfolioSkill i s))"

section \<open>Markers in the document\<close>

text \<open>
  Text fields go into the document unescaped. A text is plain when it holds no \<open><\<close> sign.
\<close>

definition plainText :: "jsstring \<Rightarrow> bool" where
  "plainText u = (of_char CHR ''<'' \<notin> set u)"

text \<open>
  \<open>mismatch m w\<close>: the two texts differ at a position that both have.
  \<open>clean m w\<close>: at no \<open><\<close> of the literal \<open>w\<close> can an occurrence of \<open><\<close> followed by
  \<open>m\<close> begin. \<open>breaks m w\<close>: no part of \<open>m\<close> from some position to its end can be
  laid over the beginning of \<open>w\<close>, so that no occurrence of the marker that begins before
  \<open>w\<close> runs into it. A piece of text is transparent for a marker when putting it in front
  of any text adds no occurrence of the marker.
\<close>

fun mismatch :: "string \<Rightarrow> string \<Rightarrow> bool" where
  "mismatch (a # m) (b # w) = (a \<noteq> b \<or> mismatch m w)"
| "mismatch m w = False"

fun clean :: "string \<Rightarrow> string \<Rightarrow> bool" where
  "clean m [] = True"
| "clean m (c # w) = ((c = CHR ''<'' \<longrightarrow> mismatch m w) \<and> clean m w)"

fun breaks :: "string \<Rightarrow> string \<Rightarrow> bool" where
  "breaks [] w = True"
| "breaks (c # m) w = (mismatch (c # m) w \<and> breaks m w)"

definition transparent :: "jsstring \<Rightarrow> jsstring \<Rightarrow> bool" where
  "transparent m p = (\<forall>rest. sublist m (p @ rest) = sublist m rest)"

text \<open>The opening of a section block, up to the end of its heading.\<close>

definition sectionOpen :: "string \<Rightarrow> jsstring" where
  \<open>sectionOpen heading = lit (''<section><h2 class="section-title">'' @ heading @ ''</h2>'')\<close>

text \<open>
  A text avoids a marker when the marker does not occur in it, and a snapshot avoids a
  marker when every text that the generator copies from it does.
\<close>

definition avoidsText :: "jsstring \<Rightarrow> jsstring \<Rightarrow> bool" where
  "avoidsText m u = (\<not> sublist m u)"

definition avoidsProject :: "jsstring \<Rightarrow> project \<Rightarrow> bool" where
  "avoidsProject m p =
     (avoidsText m (p_name p) \<and> avoidsText m (p_desc p) \<and> avoidsText m (p_image p) \<and>
      avoidsText m (p_link p) \<and> avoidsText m (p_github p))"

definition avoidsCertificate :: "jsstring \<Rightarrow> certificate \<Rightarrow> bool" where
  "avoidsCertificate m ct =
     (avoidsText m (c_name ct) \<and> avoidsText m (c_issuer ct) \<and>
      (case c_image ct of None \<Rightarrow> True | Some img \<Rightarrow> avoidsText m img))"

definition avoidsWork :: "jsstring \<Rightarrow> work \<Rightarrow> bool" where
  "avoidsWork m w = (avoidsText m (w_title w) \<and> avoidsText m (w_company w) \<and> avoidsText m (w_desc w))"

definition avoids :: "jsstring \<Rightarrow> snapshot \<Rightarrow> bool" where
  "avoids m d =
     (avoidsText m (fullName d) \<and> avoidsText m (email d) \<and> avoidsText m (title d) \<and>
      avoidsText m (bio d) \<and> avoidsText m (profileImage d) \<and> avoidsText m (experience d) \<and>
      list_all (avoidsText m) (skills d) \<and> list_all (avoidsProject m) (projects d) \<and>
      list_all (avoidsCertificate m) (certificates d) \<and> list_all (avoidsWork m) (workExperience d) \<and>
      avoidsText m (education d) \<and> avoidsText m (phone d) \<and> avoidsText m (location d) \<and>
      avoidsText m (linkedin d) \<and> avoidsText m (github d) \<and> avoidsText m (website d) \<and>
      avoidsText m (twitter d))"

section \<open>Example data\<close>

definition eightSections :: "(int \<times> jsstring list) list" where
  "eightSections =
     [(1, [lit ''Ada Lovelace'', lit ''ada@example.org'']), (2, []), (3, []), (4, []),
      (5, []), (6, []), (7, []), (8, [])]"

definition blankSnapshot :: snapshot where
  "blankSnapshot =
     \<lparr>fullName = [], email = [], title = [], bio = [], profileImage = [], domain = [],
      experience = [], skills = [], projects = [], certificates = [], workExperience = [],
      education = [], phone = [], location = [], linkedin = [], github = [], website = [],
      twitter = [], theme = []\<rparr>"

definition adaSnapshot :: snapshot where
  "adaSnapshot = blankSnapshot\<lparr>fullName := lit ''Ada Lovelace'', title := lit ''Analyst''\<rparr>"

definition listsPage :: page where
  "listsPage =
     (blankPage eightSections)
       \<lparr>portfolioSkills := [lit ''HTML'', lit ''CSS'', lit ''SQL''],
        portfolioCertificates :=
          [\<lparr>c_name = lit ''AWS'', c_issuer = lit ''Amazon'', c_image = None\<rparr>,
           \<lparr>c_name = lit ''CKA'', c_issuer = lit ''CNCF'', c_image = None\<rparr>],
        portfolioWorkExperience :=
          [\<lparr>w_title = lit ''Intern'', w_company = lit ''Acme'', w_desc = []\<rparr>,
           \<lparr>w_title = lit ''Engineer'', w_company = lit ''Initech'', w_desc = []\<rparr>],
        portfolioCertName := lit '' AWS '', portfolioCertIssuer := lit ''Amazon'',
        portfolioCertImage := Some \<lparr>fileSize = 6000000, fileDataURL = lit ''data:image/png;base64,AAAA''\<rparr>\<rparr>"

definition reactPage :: page where
  "reactPage = addPortfolioSkill ((blankPage eightSections)\<lparr>portfolioSkillInput := lit '' React''\<rparr>)"

definition stepTwoPage :: page where
  "stepTwoPage = snd (nextPortfolioStep (loadedPage eightSections))"

definition typedSkillPage :: page where
  "typedSkillPage = (loadedPage eightSections)\<lparr>portfolioSkillInput := lit '' React''\<rparr>"

definition busyPage :: page where
  "busyPage =
     fireTimer True (blankPage eightSections) eightSections
       ((generatePortfolioHTML False blankSnapshot
           (snd (nextPortfolioStep (addPortfolioSkill typedSkillPage))))\<lparr>timers := []\<rparr>)
       ResetForm"

definition blankFieldPage :: page where
  "blankFieldPage =
     loadedPage [(1, [lit ''Ada Lovelace'', lit ''  '', []]), (2, []), (3, []), (4, []),
                 (5, []), (6, []), (7, []), (8, [])]"

definition skilledSnapshot :: snapshot where
  "skilledSnapshot = adaSnapshot\<lparr>skills := [lit ''SQL''], email := lit ''ada@example.org''\<rparr>"

definition markupSnapshot :: snapshot where
  "markupSnapshot = skilledSnapshot\<lparr>bio := lit ''<b>Analyst</b> & <i>author</i>''\<rparr>"

definition injectedSnapshot :: snapshot where
  "injectedSnapshot =
     blankSnapshot\<lparr>fullName := skillsSection (blankSnapshot\<lparr>skills := [lit ''SQL'']\<rparr>)\<rparr>"

section \<open>Lists, strings and trimming\<close>

lemma lit_Nil: "lit [] = []"
  by (simp add: lit_def)

lemma lit_Cons: "lit (c # cs) = of_char c # lit cs"
  by (simp add: lit_def)

lemma distinct_take_drop:
  assumes "distinct xs" "a \<le> b"
  shows "distinct (take a xs @ drop b xs)"
proof -
  have "distinct (take a xs @ drop a xs)" using assms(1) by simp
  then have disj: "set (take a xs) \<inter> set (drop a xs) = {}" by (simp only: distinct_append)
  have "set (drop b xs) \<subseteq> set (drop a xs)" using assms(2) by (rule set_drop_subset_set_drop)
  with disj have "set (take a xs) \<inter> set (drop b xs) = {}" by blast
  then show ?thesis using assms(1) by simp
qed

lemma splice1_distinct: "distinct xs \<Longrightarrow> distinct (splice1 i xs)"
  unfolding splice1_def Let_def by (rule distinct_take_drop) auto

lemma trim_prefix_dropWhile:
  "\<exists>w. dropWhile isWhiteSpace s = trim s @ w"
proof -
  let ?t = "dropWhile isWhiteSpace s"
  have "trim s @ rev (takeWhile isWhiteSpace (rev ?t)) =
        rev (takeWhile isWhiteSpace (rev ?t) @ dropWhile isWhiteSpace (rev ?t))"
    by (simp only: rev_append trim_def)
  also have "\<dots> = ?t" by simp
  finally have "?t = trim s @ rev (takeWhile isWhiteSpace (rev ?t))" by simp
  then show ?thesis ..
qed

lemma trim_no_leading: "dropWhile isWhiteSpace (trim s) = trim s"
proof (cases "trim s = []")
  case True
  then show ?thesis by simp
next
  case False
  obtain w where w: "dropWhile isWhiteSpace s = trim s @ w"
    using trim_prefix_dropWhile by blast
  with False have ne: "dropWhile isWhiteSpace s \<noteq> []" by simp
  have "hd (trim s) = hd (dropWhile isWhiteSpace s)" using w False by simp
  moreover have "\<not> isWhiteSpace (hd (dropWhile isWhiteSpace s))" using ne by (rule hd_dropWhile)
  ultimately show ?thesis by (simp add: dropWhile_eq_self_iff)
qed

lemma trim_trim: "trim (trim v) = trim v"
proof -
  have "trim (trim v) = rev (dropWhile isWhiteSpace (rev (trim v)))"
    by (simp add: trim_def [of "trim v"] trim_no_leading)
  also have "\<dots> = trim v" by (simp add: trim_def)
  finally show ?thesis .
qed

lemma splice1_valid:
  assumes "0 \<le> i" "i < int (length xs)"
  shows "splice1 i xs = take (nat i) xs @ drop (Suc (nat i)) xs"
proof -
  have "nat (i + 1) = Suc (nat i)" using assms by simp
  then show ?thesis using assms by (simp add: splice1_def Let_def min_def max_def)
qed

lemma excise_nth:
  assumes "i < length xs"
  shows "length (take i xs @ drop (Suc i) xs) = length xs - 1"
    and "j < i \<Longrightarrow> (take i xs @ drop (Suc i) xs) ! j = xs ! j"
    and "i \<le> j \<Longrightarrow> j < length xs - 1 \<Longrightarrow> (take i xs @ drop (Suc i) xs) ! j = xs ! Suc j"
  using assms by (auto simp: nth_append min_def)

lemma splice1_set: "set (splice1 i xs) \<subseteq> set xs"
  by (auto simp: splice1_def Let_def dest: in_set_takeD in_set_dropD)

lemma indexOfFrom_absent: "0 \<le> i \<Longrightarrow> indexOfFrom i xs v = -1 \<longleftrightarrow> v \<notin> set xs"
  by (induction xs arbitrary: i) auto

lemma indexOf_absent: "indexOf xs v = -1 \<longleftrightarrow> v \<notin> set xs"
  by (simp add: indexOf_def indexOfFrom_absent)

lemma addPortfolioSkill_skills:
  "portfolioSkills (addPortfolioSkill s) =
     (if trim (portfolioSkillInput s) \<noteq> [] \<and> trim (portfolioSkillInput s) \<notin> set (portfolioSkills s)
      then portfolioSkills s @ [trim (portfolioSkillInput s)] else portfolioSkills s)"
  by (simp add: addPortfolioSkill_def Let_def indexOf_absent)

lemma builtSkills_invariant:
  "builtSkills xs \<Longrightarrow> distinct xs \<and> (\<forall>x\<in>set xs. trim x = x \<and> x \<noteq> [])"
proof (induction rule: builtSkills.induct)
  case none
  show ?case by simp
next
  case (added s)
  then show ?case by (auto simp: addPortfolioSkill_skills trim_trim)
next
  case (removed s i)
  then show ?case
    using splice1_set [of i "portfolioSkills s"]
    by (auto simp: removePortfolioSkill_def splice1_distinct)
qed

lemma count_list_distinct: "distinct xs \<Longrightarrow> x \<in> set xs \<Longrightarrow> count_list xs x = 1"
  by (induction xs) auto

lemma reactPage_skills: "portfolioSkills reactPage = [lit ''React'']"
  by (simp add: reactPage_def addPortfolioSkill_skills blankPage_def trim_def lit_def
      isWhiteSpace_def)

section \<open>The steps of the wizard\<close>

lemma querySection_None: "querySection sections k = None \<longleftrightarrow> k \<notin> fst ` set sections"
proof (induction sections)
  case Nil
  show ?case by simp
next
  case (Cons a sections)
  then show ?case by (cases a) auto
qed

lemma wellFormed_query:
  "wellFormed sections \<Longrightarrow> querySection sections k \<noteq> None \<longleftrightarrow> 1 \<le> k \<and> k \<le> 8"
proof -
  assume "wellFormed sections"
  then have "fst ` set sections = set [1, 2, 3, 4, 5, 6, 7, 8 :: int]"
    unfolding wellFormed_def by (metis set_map)
  then show ?thesis by (auto simp: querySection_None)
qed

lemma firstBlank_None: "firstBlank i vs = None \<longleftrightarrow> (\<forall>v\<in>set vs. trim v \<noteq> [])"
  by (induction vs arbitrary: i) auto

lemma firstBlank_Some:
  "firstBlank i vs = Some k \<Longrightarrow>
     i \<le> k \<and> k - i < length vs \<and> trim (vs ! (k - i)) = [] \<and> (\<forall>j<k - i. trim (vs ! j) \<noteq> [])"
proof (induction vs arbitrary: i)
  case Nil
  then show ?case by simp
next
  case (Cons v vs)
  show ?case
  proof (cases "trim v = []")
    case True
    with Cons.prems show ?thesis by simp
  next
    case False
    with Cons.prems have "firstBlank (Suc i) vs = Some k" by simp
    from Cons.IH [OF this]
    have ih: "Suc i \<le> k" "k - Suc i < length vs" "trim (vs ! (k - Suc i)) = []"
      "\<forall>j<k - Suc i. trim (vs ! j) \<noteq> []" by auto
    have e: "k - i = Suc (k - Suc i)" using ih(1) by simp
    show ?thesis
      using ih False by (auto simp: e nth_Cons split: nat.splits)
  qed
qed

lemma showPortfolioStep_fields:
  "portfolioCurrentStep (snd (showPortfolioStep k s)) = portfolioCurrentStep s"
  "stepSections (snd (showPortfolioStep k s)) = stepSections s"
  "alerts (snd (showPortfolioStep k s)) = alerts s"
  "focused (snd (showPortfolioStep k s)) = focused s"
  by (simp_all add: showPortfolioStep_def Let_def requiredInputs_def split: option.splits)

lemma showPortfolioStep_buttons:
  assumes "wellFormed (stepSections s)" "1 \<le> k" "k \<le> 8"
  shows "prevBtnShown (snd (showPortfolioStep k s)) = (k \<noteq> 1) \<and>
         nextBtnShown (snd (showPortfolioStep k s)) = (k \<noteq> 8)"
  using wellFormed_query [OF assms(1), of k] assms(2,3)
  by (auto simp: showPortfolioStep_def Let_def requiredInputs_def portfolioTotalSteps_def)

lemma validate_fields:
  "portfolioCurrentStep (snd (validatePortfolioStep k s)) = portfolioCurrentStep s"
  "stepSections (snd (validatePortfolioStep k s)) = stepSections s"
  "prevBtnShown (snd (validatePortfolioStep k s)) = prevBtnShown s"
  "nextBtnShown (snd (validatePortfolioStep k s)) = nextBtnShown s"
  by (simp_all add: validatePortfolioStep_def split: option.splits)

lemma nextPortfolioStep_cases:
  "nextPortfolioStep s =
     (if fst (validatePortfolioStep (portfolioCurrentStep s) s) = Normal True
      then showPortfolioStep (portfolioCurrentStep s + 1)
             ((snd (validatePortfolioStep (portfolioCurrentStep s) s))
                \<lparr>portfolioCurrentStep := portfolioCurrentStep s + 1\<rparr>)
      else (if fst (validatePortfolioStep (portfolioCurrentStep s) s) = TypeError then TypeError
            else Normal (),
            snd (validatePortfolioStep (portfolioCurrentStep s) s)))"
proof -
  obtain c s1 where v: "validatePortfolioStep (portfolioCurrentStep s) s = (c, s1)"
    by (cases "validatePortfolioStep (portfolioCurrentStep s) s")
  have "portfolioCurrentStep s1 = portfolioCurrentStep s"
    using validate_fields(1) [of "portfolioCurrentStep s" s] v by simp
  then show ?thesis
    by (cases c) (auto simp: nextPortfolioStep_def Let_def v)
qed

lemma list_operations_frame:
  fixes s :: page
  defines "frame \<equiv> (\<lambda>s. (portfolioCurrentStep s, stepSections s, prevBtnShown s, nextBtnShown s))"
  shows
  "frame (openPortfolioModal s) = frame s"
  "frame (closePortfolioModal s) = frame s"
  "frame (selectPortfolioDomain chosen s) = frame s"
  "frame (addPortfolioSkill s) = frame s"
  "frame (removePortfolioSkill i s) = frame s"
  "frame (addPortfolioCertificate s) = frame s"
  "frame (readerOnload k s) = frame s"
  "frame (removePortfolioCert i s) = frame s"
  "frame (addPortfolioWork s) = frame s"
  "frame (removePortfolioWork i s) = frame s"
  "frame (generatePortfolioHTML opened d s) = frame s"
  "frame (downloadTimeout confirmed html name s) = frame s"
  by (simp_all add: frame_def openPortfolioModal_def closePortfolioModal_def
      selectPortfolioDomain_def addPortfolioSkill_def removePortfolioSkill_def
      addPortfolioCertificate_def readerOnload_def removePortfolioCert_def addPortfolioWork_def
      removePortfolioWork_def generatePortfolioHTML_def downloadTimeout_def Let_def
      split: option.splits prod.splits)

lemmas builder_frame = list_operations_frame [simplified prod.inject]

lemma visited_invariant:
  "visited s \<Longrightarrow>
     wellFormed (stepSections s) \<and> 1 \<le> portfolioCurrentStep s \<and> portfolioCurrentStep s \<le> 8 \<and>
     (prevBtnShown s \<longrightarrow> 1 < portfolioCurrentStep s) \<and>
     (nextBtnShown s \<longrightarrow> portfolioCurrentStep s < 8)"
proof (induction rule: visited.induct)
  case (loaded sections)
  then have "wellFormed (stepSections (blankPage sections))"
    by (simp add: blankPage_def)
  from showPortfolioStep_buttons [OF this, of 1] loaded show ?case
    by (simp add: loadedPage_def showPortfolioStep_fields) (simp add: blankPage_def)
next
  case (nextClicked s)
  let ?v = "validatePortfolioStep (portfolioCurrentStep s) s"
  show ?case
  proof (cases "fst ?v = Normal True")
    case True
    let ?s2 = "(snd ?v)\<lparr>portfolioCurrentStep := portfolioCurrentStep s + 1\<rparr>"
    have lt: "portfolioCurrentStep s < 8" using nextClicked by simp
    have "wellFormed (stepSections ?s2)"
      using nextClicked by (simp add: validate_fields)
    from showPortfolioStep_buttons [OF this, of "portfolioCurrentStep s + 1"] True nextClicked lt
    show ?thesis
      by (simp add: nextPortfolioStep_cases showPortfolioStep_fields validate_fields)
  next
    case False
    with nextClicked show ?thesis
      by (simp add: nextPortfolioStep_cases validate_fields)
  qed
next
  case (prevClicked s)
  let ?s1 = "s\<lparr>portfolioCurrentStep := portfolioCurrentStep s - 1\<rparr>"
  have gt: "1 < portfolioCurrentStep s" using prevClicked by simp
  have "wellFormed (stepSections ?s1)" using prevClicked by simp
  from showPortfolioStep_buttons [OF this, of "portfolioCurrentStep s - 1"] prevClicked gt
  show ?case
    by (simp add: previousPortfolioStep_def Let_def showPortfolioStep_fields)
next
  case edited
  then show ?case by (simp add: wellFormed_def)
next
  case projectFieldAdded
  then show ?case by (simp add: wellFormed_def addPortfolioProjectField_def)
next
  case (timerFired s k pristine rebuilt confirmed)
  show ?case
  proof (cases "timers s ! k")
    case (DownloadOffer html name)
    with timerFired.IH show ?thesis by (simp add: builder_frame)
  next
    case ResetForm
    have w: "wellFormed (stepSections pristine)" "wellFormed rebuilt"
      using timerFired.hyps timerFired.IH by (simp_all add: wellFormed_def)
    show ?thesis
      using w wellFormed_query [of "stepSections pristine" 1] ResetForm
      by (auto simp: resetTimeout_def Let_def showPortfolioStep_def requiredInputs_def
          portfolioTotalSteps_def)
  qed
qed (simp_all add: builder_frame)

lemma validate_result:
  assumes "requiredInputs s step = Some inputs"
  shows "validatePortfolioStep step s =
     (case firstBlank 0 inputs of
        Some i \<Rightarrow> (Normal False,
           s\<lparr>alerts := alerts s @ [lit ''Please fill in all required fields''],
             focused := Some (step, i)\<rparr>)
      | None \<Rightarrow> if step = 2 \<and> portfolioSelectedDomain s = []
          then (Normal False, s\<lparr>alerts := alerts s @ [lit ''Please select a domain'']\<rparr>)
          else (Normal True, s))"
  using assms by (simp add: validatePortfolioStep_def)

lemma resetTimeout_globals:
  "wizardStateOf (snd (resetTimeout pristine rebuilt s)) = initialWizardState"
  by (simp add: resetTimeout_def wizardStateOf_def initialWizardState_def Let_def
      showPortfolioStep_def requiredInputs_def split: option.splits)

lemmas page_eval =
  loadedPage_def blankPage_def showPortfolioStep_def requiredInputs_def Let_def
  portfolioTotalSteps_def eightSections_def validatePortfolioStep_def nextPortfolioStep_def
  previousPortfolioStep_def trim_def lit_def isWhiteSpace_def

section \<open>The text of the document\<close>

lemma unat_of_char16: "unat (of_char c :: 16 word) = of_char c"
proof -
  have "(of_char c :: nat) < 65536"
    by (rule less_trans [OF nat_of_char_less_256]) simp
  moreover have "unat (of_nat (of_char c) :: 16 word) = of_char c mod 65536"
    by (simp add: unat_of_nat del: of_nat_of_char)
  ultimately have "unat (of_nat (of_char c) :: 16 word) = of_char c"
    by simp
  then show ?thesis
    by (simp only: of_nat_of_char)
qed

lemma of_char16_eq_iff [simp]: "(of_char c :: 16 word) = of_char d \<longleftrightarrow> c = d"
proof
  assume "(of_char c :: 16 word) = of_char d"
  then have "unat (of_char c :: 16 word) = unat (of_char d :: 16 word)" by simp
  then show "c = d" by (simp add: unat_of_char16)
qed simp

lemma lit_append: "lit (a @ b) = lit a @ lit b"
  by (simp add: lit_def)

lemma lit_eq_iff: "lit a = lit b \<longleftrightarrow> a = b"
  unfolding lit_def by (rule inj_map_eq_map) (simp add: inj_def)

lemma plainText_lit: "plainText (lit w) \<longleftrightarrow> CHR ''<'' \<notin> set w"
  by (auto simp: plainText_def lit_def simp del: of_char_Char)

lemma plainText_append: "plainText (a @ b) \<longleftrightarrow> plainText a \<and> plainText b"
  by (auto simp: plainText_def)

lemma transparent_Nil: "transparent m []"
  by (simp add: transparent_def)

lemma transparent_append: "transparent m a \<Longrightarrow> transparent m b \<Longrightarrow> transparent m (a @ b)"
  by (simp add: transparent_def)

lemma transparent_if:
  "(b \<Longrightarrow> transparent m p) \<Longrightarrow> (\<not> b \<Longrightarrow> transparent m q) \<Longrightarrow> transparent m (if b then p else q)"
  by simp

lemma transparent_absent: "transparent m p \<Longrightarrow> m \<noteq> [] \<Longrightarrow> \<not> sublist m p"
  using transparent_def [of m p] by (metis append_Nil2 sublist_Nil_right)

lemma transparent_plain:
  assumes "plainText u"
  shows "transparent (lit (CHR ''<'' # m)) u"
  unfolding transparent_def
proof
  fix rest
  from assms show "sublist (lit (CHR ''<'' # m)) (u @ rest) = sublist (lit (CHR ''<'' # m)) rest"
    by (induction u) (auto simp: plainText_def lit_Cons sublist_Cons_right simp del: of_char_Char)
qed

lemma mismatch_no_prefix: "mismatch m w \<Longrightarrow> \<not> prefix (lit m) (lit w @ rest)"
  by (induction m w rule: mismatch.induct) (auto simp: lit_Cons)

lemma transparent_lit:
  assumes "clean m w"
  shows "transparent (lit (CHR ''<'' # m)) (lit w)"
  unfolding transparent_def
proof
  fix rest
  from assms show "sublist (lit (CHR ''<'' # m)) (lit w @ rest) = sublist (lit (CHR ''<'' # m)) rest"
  proof (induction w)
    case Nil
    show ?case by (simp add: lit_Nil)
  next
    case (Cons c w)
    then have ih: "sublist (lit (CHR ''<'' # m)) (lit w @ rest) = sublist (lit (CHR ''<'' # m)) rest"
      by simp
    have "\<not> prefix (lit (CHR ''<'' # m)) (lit (c # w) @ rest)"
      using Cons.prems mismatch_no_prefix [of m w rest]
      by (auto simp: lit_Cons simp del: of_char_Char)
    then show ?case
      by (simp add: lit_Cons [of c w] sublist_Cons_right ih)
  qed
qed

lemma foldl_append_concat: "foldl (\<lambda>html x. html @ f x) acc xs = acc @ concat (map f xs)"
  by (induction xs arbitrary: acc) simp_all

lemma transparent_concat:
  "(\<And>x. x \<in> set xs \<Longrightarrow> transparent m (f x)) \<Longrightarrow> transparent m (concat (map f xs))"
  by (induction xs) (simp_all add: transparent_Nil transparent_append)

lemma transparent_skillsHTML:
  "(\<And>s. s \<in> set xs \<Longrightarrow> transparent m (skillTag s)) \<Longrightarrow> transparent m (skillsHTML xs)"
  by (simp add: skillsHTML_def foldl_append_concat transparent_concat)

lemma transparent_projectsHTML:
  "(\<And>p. p \<in> set xs \<Longrightarrow> transparent m (projectCard p)) \<Longrightarrow> transparent m (projectsHTML xs)"
  by (simp add: projectsHTML_def foldl_append_concat transparent_concat)

lemma transparent_certsHTML:
  "(\<And>ct. ct \<in> set xs \<Longrightarrow> transparent m (certItem ct)) \<Longrightarrow> transparent m (certsHTML xs)"
  by (simp add: certsHTML_def foldl_append_concat transparent_concat)

lemma transparent_workHTML:
  "(\<And>w. w \<in> set xs \<Longrightarrow> transparent m (workItem w)) \<Longrightarrow> transparent m (workHTML xs)"
  by (simp add: workHTML_def foldl_append_concat transparent_concat)

lemma plainText_color:
  "plainText (color (selectColors t) primary)"
  "plainText (color (selectColors t) secondary)"
  "plainText (color (selectColors t) bg)"
  "plainText (color (selectColors t) cardBg)"
  "plainText (color (selectColors t) textColor)"
  by (simp_all add: selectColors_def getProperty_def themeColors_def themeColorsDark_def
      plainText_lit)

lemma transparent_case_option:
  "(x = None \<Longrightarrow> transparent m a) \<Longrightarrow> (\<And>y. x = Some y \<Longrightarrow> transparent m (f y)) \<Longrightarrow>
   transparent m (case x of None \<Rightarrow> a | Some y \<Rightarrow> f y)"
  by (cases x) simp_all

lemma plainText_Nil: "plainText []"
  by (simp add: plainText_def)

lemma plainText_Cons: "plainText (u # us) \<longleftrightarrow> u \<noteq> 60 \<and> plainText us"
  by (auto simp: plainText_def)

lemma plainText_style:
  "plainText (styleProfile (selectColors t))"
  "plainText (styleSkills (selectColors t))"
  "plainText (styleProjects (selectColors t))"
  "plainText (styleCerts (selectColors t))"
  "plainText (styleWork (selectColors t))"
  "plainText (styleContact (selectColors t))"
  by (simp_all add: styleProfile_def styleSkills_def styleProjects_def styleCerts_def
      styleWork_def styleContact_def plainText_append plainText_lit plainText_color)

lemma sectionOpen_nonempty: "sectionOpen h \<noteq> []"
  by (simp add: sectionOpen_def lit_def)

lemma sublist_skip: "sublist m r \<Longrightarrow> sublist m (a @ r)"
  unfolding sublist_def by (metis append_assoc)

lemma sublist_first: "sublist m x \<Longrightarrow> sublist m (x @ r)"
  unfolding sublist_def by (metis append_assoc)

lemma sublist_first3: "sublist m (a @ b @ c) \<Longrightarrow> sublist m (a @ b @ c @ r)"
  using sublist_first [of m "a @ b @ c" r] by simp

lemma breaks_suffix: "breaks m w \<Longrightarrow> suffix m' m \<Longrightarrow> m' \<noteq> [] \<Longrightarrow> mismatch m' w"
  by (induction m) (auto simp: suffix_Cons)

lemma lit_split: "lit s = xs @ ys \<Longrightarrow> \<exists>a b. s = a @ b \<and> xs = lit a \<and> ys = lit b"
  unfolding lit_def by (auto simp: map_eq_append_conv)

lemma plainText_avoids: "plainText u \<Longrightarrow> avoidsText (lit (CHR ''<'' # m)) u"
  using transparent_absent [OF transparent_plain, of u m]
  by (simp add: avoidsText_def lit_def)

lemma transparent_avoids:
  assumes "avoidsText (lit (CHR ''<'' # m)) u" and "breaks m w" and "clean m w"
  shows "transparent (lit (CHR ''<'' # m)) (u @ lit w)"
  unfolding transparent_def
proof
  fix rest
  let ?M = "lit (CHR ''<'' # m)"
  have lit_part: "sublist ?M (lit w @ rest) = sublist ?M rest"
    using transparent_lit [OF assms(3)] unfolding transparent_def by (rule spec)
  have no_u: "\<not> sublist ?M u"
    using assms(1) unfolding avoidsText_def .
  have r: "sublist ?M rest" if occ: "sublist ?M (u @ lit w @ rest)"
  proof -
    from iffD1 [OF sublist_append occ]
    have "sublist ?M u \<or> sublist ?M (lit w @ rest) \<or>
          (\<exists>xs1 xs2. ?M = xs1 @ xs2 \<and> suffix xs1 u \<and> prefix xs2 (lit w @ rest))" .
    then show ?thesis
    proof (elim disjE exE conjE)
      assume "sublist ?M u"
      with no_u show ?thesis by (rule notE)
    next
      assume "sublist ?M (lit w @ rest)"
      then show ?thesis by (simp only: lit_part)
    next
      fix xs1 xs2
      assume s: "?M = xs1 @ xs2" and s1: "suffix xs1 u" and s2: "prefix xs2 (lit w @ rest)"
      show ?thesis
      proof (cases "xs1 = []")
        case True
        with s s2 have "prefix ?M (lit w @ rest)" by simp
        then have "sublist ?M (lit w @ rest)" by (rule prefix_imp_sublist)
        then show ?thesis by (simp only: lit_part)
      next
        case False
        show ?thesis
        proof (cases "xs2 = []")
          case True
          with s s1 have "suffix ?M u" by simp
          then have "sublist ?M u" by (rule suffix_imp_sublist)
          with no_u show ?thesis by (rule notE)
        next
          case xs2: False
          from lit_split [OF s] obtain a b
            where ab: "CHR ''<'' # m = a @ b" and a: "xs1 = lit a" and b: "xs2 = lit b"
            by (elim exE conjE)
          from a False have "a \<noteq> []" by (auto simp: lit_Nil)
          then obtain c a' where "a = c # a'" by (cases a) simp_all
          with ab have "m = a' @ b" by simp
          then have suf: "suffix b m" by (rule suffixI)
          from b xs2 have "b \<noteq> []" by (auto simp: lit_Nil)
          from breaks_suffix [OF assms(2) suf this] have "mismatch b w" .
          from mismatch_no_prefix [OF this, of rest] s2 b show ?thesis by simp
        qed
      qed
    qed
  qed
  show "sublist ?M ((u @ lit w) @ rest) = sublist ?M rest"
  proof
    assume "sublist ?M ((u @ lit w) @ rest)"
    then have "sublist ?M (u @ lit w @ rest)" by (simp only: append_assoc)
    then show "sublist ?M rest" by (rule r)
  next
    assume "sublist ?M rest"
    then have "sublist ?M (lit w @ rest)" by (rule sublist_skip)
    then have "sublist ?M (u @ lit w @ rest)" by (rule sublist_skip)
    then show "sublist ?M ((u @ lit w) @ rest)" by (simp only: append_assoc)
  qed
qed

lemma step_lit:
  "clean m w \<Longrightarrow> transparent (lit (CHR ''<'' # m)) r \<Longrightarrow>
   transparent (lit (CHR ''<'' # m)) (lit w @ r)"
  by (simp add: transparent_append transparent_lit)

lemma step_avoids:
  "avoidsText (lit (CHR ''<'' # m)) u \<Longrightarrow> breaks m w \<Longrightarrow> clean m w \<Longrightarrow>
   transparent (lit (CHR ''<'' # m)) r \<Longrightarrow> transparent (lit (CHR ''<'' # m)) (u @ lit w @ r)"
  using transparent_append [OF transparent_avoids, of m u w r] by simp

lemma step_if:
  "(b \<Longrightarrow> transparent m p) \<Longrightarrow> (\<not> b \<Longrightarrow> transparent m q) \<Longrightarrow> transparent m r \<Longrightarrow>
   transparent m ((if b then p else q) @ r)"
  by (simp add: transparent_append)

lemma step_case_option:
  "(x = None \<Longrightarrow> transparent m a) \<Longrightarrow> (\<And>y. x = Some y \<Longrightarrow> transparent m (f y)) \<Longrightarrow>
   transparent m r \<Longrightarrow> transparent m ((case x of None \<Rightarrow> a | Some y \<Rightarrow> f y) @ r)"
  by (simp add: transparent_append transparent_case_option)

lemma step_lists:
  "(\<And>s. s \<in> set ss \<Longrightarrow> transparent m (skillTag s)) \<Longrightarrow> transparent m r \<Longrightarrow>
     transparent m (skillsHTML ss @ r)"
  "(\<And>p. p \<in> set ps \<Longrightarrow> transparent m (projectCard p)) \<Longrightarrow> transparent m r \<Longrightarrow>
     transparent m (projectsHTML ps @ r)"
  "(\<And>ct. ct \<in> set cs \<Longrightarrow> transparent m (certItem ct)) \<Longrightarrow> transparent m r \<Longrightarrow>
     transparent m (certsHTML cs @ r)"
  "(\<And>w. w \<in> set ws \<Longrightarrow> transparent m (workItem w)) \<Longrightarrow> transparent m r \<Longrightarrow>
     transparent m (workHTML ws @ r)"
  by (simp_all add: transparent_append transparent_skillsHTML transparent_projectsHTML
      transparent_certsHTML transparent_workHTML)

lemmas avoids_defs =
  avoids_def avoidsProject_def avoidsCertificate_def avoidsWork_def list_all_iff

lemma step_unit:
  "x \<noteq> 60 \<Longrightarrow> transparent (lit (CHR ''<'' # m)) r \<Longrightarrow> transparent (lit (CHR ''<'' # m)) (x # r)"
  using transparent_append [OF transparent_plain [of "[x]" m], of r]
  by (simp add: plainText_Cons plainText_Nil)

lemma step_color:
  "transparent (lit (CHR ''<'' # m)) r \<Longrightarrow>
     transparent (lit (CHR ''<'' # m)) (color (selectColors t) primary @ r)"
  "transparent (lit (CHR ''<'' # m)) r \<Longrightarrow>
     transparent (lit (CHR ''<'' # m)) (color (selectColors t) secondary @ r)"
  "transparent (lit (CHR ''<'' # m)) r \<Longrightarrow>
     transparent (lit (CHR ''<'' # m)) (color (selectColors t) bg @ r)"
  "transparent (lit (CHR ''<'' # m)) r \<Longrightarrow>
     transparent (lit (CHR ''<'' # m)) (color (selectColors t) cardBg @ r)"
  "transparent (lit (CHR ''<'' # m)) r \<Longrightarrow>
     transparent (lit (CHR ''<'' # m)) (color (selectColors t) textColor @ r)"
  by (simp_all add: transparent_append transparent_plain plainText_color)

lemma step_style:
  "transparent (lit (CHR ''<'' # m)) r \<Longrightarrow>
     transparent (lit (CHR ''<'' # m)) (styleProfile (selectColors t) @ r)"
  "transparent (lit (CHR ''<'' # m)) r \<Longrightarrow>
     transparent (lit (CHR ''<'' # m)) (styleSkills (selectColors t) @ r)"
  "transparent (lit (CHR ''<'' # m)) r \<Longrightarrow>
     transparent (lit (CHR ''<'' # m)) (styleProjects (selectColors t) @ r)"
  "transparent (lit (CHR ''<'' # m)) r \<Longrightarrow>
     transparent (lit (CHR ''<'' # m)) (styleCerts (selectColors t) @ r)"
  "transparent (lit (CHR ''<'' # m)) r \<Longrightarrow>
     transparent (lit (CHR ''<'' # m)) (styleWork (selectColors t) @ r)"
  "transparent (lit (CHR ''<'' # m)) r \<Longrightarrow>
     transparent (lit (CHR ''<'' # m)) (styleContact (selectColors t) @ r)"
  by (simp_all add: transparent_append transparent_plain plainText_style)

lemmas scan_rules =
  step_lit step_unit step_color step_style step_if step_case_option
  step_lists(1) [unfolded skillTag_def]
  step_lists(2) [unfolded projectCard_def, simplified append_assoc]
  step_lists(3) [unfolded certItem_def certImageOrIcon_def, simplified append_assoc]
  step_lists(4) [unfolded workItem_def]
  step_avoids transparent_avoids transparent_if transparent_lit transparent_Nil

lemmas document_defs =
  portfolioHTML_def Let_def styleBase_def styleFooter_def headerHTML_def headerName_def
  skillsSection_def projectsSection_def workSection_def certsSection_def educationSection_def
  contactOpen_def contactEntries_def contactEmail_def contactPhone_def contactLocation_def
  contactLinkedin_def contactGithub_def contactWebsite_def contactTwitter_def
  contactClose_def footerHTML_def

lemma avoidsText_lit: "clean m w \<Longrightarrow> avoidsText (lit (CHR ''<'' # m)) (lit w)"
  using transparent_absent [OF transparent_lit, of m w]
  by (simp add: avoidsText_def lit_def)

lemma scan_eval:
  "mismatch (a # m) (b # w) = (if a = b then mismatch m w else True)"
  "clean m (c # w) = (if c = CHR ''<'' then mismatch m w \<and> clean m w else clean m w)"
  "breaks (a # m) w = (if mismatch (a # m) w then breaks m w else False)"
  by simp_all

lemma skills_opening_absent:
  assumes "avoids (sectionOpen ''Skills & Expertise'') d" and "skills d = []"
  shows "transparent (sectionOpen ''Skills & Expertise'') (portfolioHTML d)"
proof -
  note f = assms(1) [unfolded avoids_defs sectionOpen_def append.simps]
  show ?thesis
    unfolding sectionOpen_def document_defs
    apply (simp only: append.simps append_assoc assms(2) list.size if_False less_irrefl
        not_False_eq_True simp_thms)
    apply (intro scan_rules)
    apply (simp_all (no_asm) only: scan_eval mismatch.simps(2,3) clean.simps(1) breaks.simps(1)
        char.inject simp_thms if_True if_False cong: if_weak_cong)
    apply (simp_all (no_asm) add: plainText_avoids plainText_Cons plainText_Nil)
    apply ((use f in \<open>fastforce split: option.splits\<close>)+)?
    done
qed

lemma projects_opening_absent:
  assumes "avoids (sectionOpen ''Featured Projects'') d" and "projects d = []"
  shows "transparent (sectionOpen ''Featured Projects'') (portfolioHTML d)"
proof -
  note f = assms(1) [unfolded avoids_defs sectionOpen_def append.simps]
  show ?thesis
    unfolding sectionOpen_def document_defs
    apply (simp only: append.simps append_assoc assms(2) list.size if_False less_irrefl
        not_False_eq_True simp_thms)
    apply (intro scan_rules)
    apply (simp_all (no_asm) only: scan_eval mismatch.simps(2,3) clean.simps(1) breaks.simps(1)
        char.inject simp_thms if_True if_False cong: if_weak_cong)
    apply (simp_all (no_asm) add: plainText_avoids plainText_Cons plainText_Nil)
    apply ((use f in \<open>fastforce split: option.splits\<close>)+)?
    done
qed

lemma work_opening_absent:
  assumes "avoids (sectionOpen ''Work Experience'') d" and "workExperience d = []"
  shows "transparent (sectionOpen ''Work Experience'') (portfolioHTML d)"
proof -
  note f = assms(1) [unfolded avoids_defs sectionOpen_def append.simps]
  show ?thesis
    unfolding sectionOpen_def document_defs
    apply (simp only: append.simps append_assoc assms(2) list.size if_False less_irrefl
        not_False_eq_True simp_thms)
    apply (intro scan_rules)
    apply (simp_all (no_asm) only: scan_eval mismatch.simps(2,3) clean.simps(1) breaks.simps(1)
        char.inject simp_thms if_True if_False cong: if_weak_cong)
    apply (simp_all (no_asm) add: plainText_avoids plainText_Cons plainText_Nil)
    apply ((use f in \<open>fastforce split: option.splits\<close>)+)?
    done
qed

lemma certs_opening_absent:
  assumes "avoids (sectionOpen ''Certificates & Achievements'') d" and "certificates d = []"
  shows "transparent (sectionOpen ''Certificates & Achievements'') (portfolioHTML d)"
proof -
  note f = assms(1) [unfolded avoids_defs sectionOpen_def append.simps]
  show ?thesis
    unfolding sectionOpen_def document_defs
    apply (simp only: append.simps append_assoc assms(2) list.size if_False less_irrefl
        not_False_eq_True simp_thms)
    apply (intro scan_rules)
    apply (simp_all (no_asm) only: scan_eval mismatch.simps(2,3) clean.simps(1) breaks.simps(1)
        char.inject simp_thms if_True if_False cong: if_weak_cong)
    apply (simp_all (no_asm) add: plainText_avoids plainText_Cons plainText_Nil)
    apply ((use f in \<open>fastforce split: option.splits\<close>)+)?
    done
qed

lemma education_opening_absent:
  assumes "avoids (sectionOpen ''Education'') d" and "education d = []"
  shows "transparent (sectionOpen ''Education'') (portfolioHTML d)"
proof -
  note f = assms(1) [unfolded avoids_defs sectionOpen_def append.simps]
  show ?thesis
    unfolding sectionOpen_def document_defs
    apply (simp only: append.simps append_assoc assms(2) list.size if_False less_irrefl
        not_False_eq_True simp_thms)
    apply (intro scan_rules)
    apply (simp_all (no_asm) only: scan_eval mismatch.simps(2,3) clean.simps(1) breaks.simps(1)
        char.inject simp_thms if_True if_False cong: if_weak_cong)
    apply (simp_all (no_asm) add: plainText_avoids plainText_Cons plainText_Nil)
    apply ((use f in \<open>fastforce split: option.splits\<close>)+)?
    done
qed

lemma sublist_document:
  "sublist m (styleBase d (selectColors (theme d))) \<Longrightarrow> sublist m (portfolioHTML d)"
  "sublist m (headerHTML d) \<Longrightarrow> sublist m (portfolioHTML d)"
  "sublist m (skillsSection d) \<Longrightarrow> sublist m (portfolioHTML d)"
  "sublist m (projectsSection d) \<Longrightarrow> sublist m (portfolioHTML d)"
  "sublist m (workSection d) \<Longrightarrow> sublist m (portfolioHTML d)"
  "sublist m (certsSection d) \<Longrightarrow> sublist m (portfolioHTML d)"
  "sublist m (educationSection d (selectColors (theme d))) \<Longrightarrow> sublist m (portfolioHTML d)"
  "sublist m (contactOpen @ contactEntries d @ contactClose) \<Longrightarrow> sublist m (portfolioHTML d)"
  unfolding portfolioHTML_def Let_def
  by ((rule sublist_first, assumption) | (rule sublist_first3, assumption) | rule sublist_skip)+

lemma section_opens:
  "skills d \<noteq> [] \<Longrightarrow> prefix (sectionOpen ''Skills & Expertise'') (skillsSection d)"
  "projects d \<noteq> [] \<Longrightarrow> prefix (sectionOpen ''Featured Projects'') (projectsSection d)"
  "workExperience d \<noteq> [] \<Longrightarrow> prefix (sectionOpen ''Work Experience'') (workSection d)"
  "certificates d \<noteq> [] \<Longrightarrow> prefix (sectionOpen ''Certificates & Achievements'') (certsSection d)"
  "education d \<noteq> [] \<Longrightarrow> prefix (sectionOpen ''Education'') (educationSection d c)"
  by (simp_all add: sectionOpen_def skillsSection_def projectsSection_def workSection_def
      certsSection_def educationSection_def lit_Cons lit_Nil)

lemma headerName_in_header: "sublist (headerName d) (headerHTML d)"
  unfolding headerHTML_def
  by (intro sublist_skip sublist_appendI)

lemma fullName_in_styleBase: "sublist (fullName d) (styleBase d c)"
  unfolding styleBase_def by (rule sublist_appendI)

lemma contact_entry_empty:
  "contactEmail d = [] \<longleftrightarrow> email d = []"
  "contactPhone d = [] \<longleftrightarrow> phone d = []"
  "contactLocation d = [] \<longleftrightarrow> location d = []"
  "contactLinkedin d = [] \<longleftrightarrow> linkedin d = []"
  "contactGithub d = [] \<longleftrightarrow> github d = []"
  "contactWebsite d = [] \<longleftrightarrow> website d = []"
  "contactTwitter d = [] \<longleftrightarrow> twitter d = []"
  by (simp_all add: contactEmail_def contactPhone_def contactLocation_def contactLinkedin_def
      contactGithub_def contactWebsite_def contactTwitter_def lit_def)

lemma contact_block_text:
  \<open>contactOpen @ contactEntries d @ contactClose =
   lit (''<section class="contact-section"><h2 class="section-title">Get In Touch</h2>'' @
        ''<p style="opacity:0.9;margin-bottom:20px">'' @
        ''Let's connect and discuss opportunities!</p><div class="contact-grid">'') @
   (if email d \<noteq> [] then
      lit ''<a href="mailto:'' @ email d @ lit ''" class="contact-item">'' @
      [0xD83D, 0xDCE7] @ lit '' Email</a>''
    else []) @
   (if phone d \<noteq> [] then
      lit ''<a href="tel:'' @ phone d @ lit ''" class="contact-item">'' @
      [0xD83D, 0xDCF1] @ lit '' Phone</a>''
    else []) @
   (if location d \<noteq> [] then
      lit ''<span class="contact-item">'' @ [0xD83D, 0xDCCD] @ lit '' '' @ location d @
      lit ''</span>''
    else []) @
   (if linkedin d \<noteq> [] then
      lit ''<a href="'' @ linkedin d @ lit ''" target="_blank" class="contact-item">'' @
      [0xD83D, 0xDCBC] @ lit '' LinkedIn</a>''
    else []) @
   (if github d \<noteq> [] then
      lit ''<a href="'' @ github d @ lit ''" target="_blank" class="contact-item">'' @
      [0xD83D, 0xDCBB] @ lit '' GitHub</a>''
    else []) @
   (if website d \<noteq> [] then
      lit ''<a href="'' @ website d @ lit ''" target="_blank" class="contact-item">'' @
      [0xD83C, 0xDF10] @ lit '' Website</a>''
    else []) @
   (if twitter d \<noteq> [] then
      lit ''<a href="'' @ twitter d @ lit ''" target="_blank" class="contact-item">'' @
      [0xD83D, 0xDC26] @ lit '' Twitter</a>''
    else []) @
   lit ''</div></section></div>''\<close>
  unfolding contactOpen_def contactEntries_def contactEmail_def contactPhone_def
    contactLocation_def contactLinkedin_def contactGithub_def contactWebsite_def
    contactTwitter_def contactClose_def
  by (simp only: append_assoc)

lemma contact_block_in_document:
  "sublist (contactOpen @ contactEntries d @ contactClose) (portfolioHTML d)"
  by (rule sublist_document) simp

lemma avoids_adaSnapshot: "avoids (sectionOpen h) adaSnapshot"
  unfolding sectionOpen_def
  apply (simp only: append.simps)
  apply (simp add: avoids_defs adaSnapshot_def blankSnapshot_def plainText_avoids plainText_lit
      plainText_Nil)
  done

lemma avoids_markupSnapshot: "avoids (sectionOpen h) markupSnapshot"
  unfolding sectionOpen_def
  apply (simp only: append.simps)
  apply (simp add: avoids_defs markupSnapshot_def skilledSnapshot_def adaSnapshot_def
      blankSnapshot_def avoidsText_lit plainText_avoids plainText_lit plainText_Nil)
  done

subsection \<open>Themes\<close>

lemma selectColors_green:
  "selectColors (lit ''green'') =
     Palette \<lparr>primary = lit ''#10b981'', secondary = lit ''#047857'', bg = lit ''#064e3b'',
       cardBg = lit ''#065f46'', textColor = lit ''#ffffff''\<rparr>"
  by (simp add: selectColors_def getProperty_def themeColors_def lit_eq_iff)

lemma selectColors_dark: "selectColors (lit ''dark'') = Palette themeColorsDark"
  by (simp add: selectColors_def getProperty_def themeColors_def themeColorsDark_def)

lemma selectColors_fallback:
  assumes "name \<notin> set (map lit (map fst themeColors @ objectPrototypeNames))"
  shows "selectColors name = Palette themeColorsDark"
  using assms by (simp add: selectColors_def getProperty_def themeColors_def)

lemma sublist_here3: "sublist (a @ b @ c) (a @ b @ c @ r)"
  using sublist_append_rightI [of "a @ b @ c" r] by simp

lemma gradient_in_styleBase:
  "sublist (color c primary @ lit '','' @ color c secondary) (styleBase d c)"
  unfolding styleBase_def
  by (rule sublist_here3 | rule sublist_skip)+

lemma green_document:
  assumes "theme d = lit ''green''"
  shows "sublist (lit ''#10b981'' @ lit '','' @ lit ''#047857'') (portfolioHTML d)"
  using sublist_document(1) [OF gradient_in_styleBase, of d] assms
  by (simp add: selectColors_green)

lemma theme_update_pieces:
  "styleBase (d\<lparr>theme := a\<rparr>) c = styleBase d c"
  "headerHTML (d\<lparr>theme := a\<rparr>) = headerHTML d"
  "skillsSection (d\<lparr>theme := a\<rparr>) = skillsSection d"
  "projectsSection (d\<lparr>theme := a\<rparr>) = projectsSection d"
  "workSection (d\<lparr>theme := a\<rparr>) = workSection d"
  "certsSection (d\<lparr>theme := a\<rparr>) = certsSection d"
  "educationSection (d\<lparr>theme := a\<rparr>) c = educationSection d c"
  "contactEntries (d\<lparr>theme := a\<rparr>) = contactEntries d"
  "footerHTML (d\<lparr>theme := a\<rparr>) = footerHTML d"
  by (simp_all add: styleBase_def headerHTML_def headerName_def skillsSection_def
      projectsSection_def workSection_def certsSection_def educationSection_def
      contactEntries_def contactEmail_def contactPhone_def contactLocation_def
      contactLinkedin_def contactGithub_def contactWebsite_def contactTwitter_def
      footerHTML_def split del: if_split cong: if_cong)

lemma portfolioHTML_theme:
  "selectColors a = selectColors b \<Longrightarrow>
   portfolioHTML (d\<lparr>theme := a\<rparr>) = portfolioHTML (d\<lparr>theme := b\<rparr>)"
  by (simp add: portfolioHTML_def Let_def theme_update_pieces)

lemma unknown_theme_document:
  assumes "name \<notin> set (map lit (map fst themeColors @ objectPrototypeNames))"
  shows "portfolioHTML (d\<lparr>theme := name\<rparr>) = portfolioHTML (d\<lparr>theme := lit ''dark''\<rparr>)"
  using portfolioHTML_theme [of name "lit ''dark''" d] selectColors_fallback [OF assms]
    selectColors_dark
  by simp

lemma selectColors_constructor: "selectColors (lit ''constructor'') = PrototypeMember"
  by (simp add: selectColors_def getProperty_def themeColors_def objectPrototypeNames_def
      lit_eq_iff)

section \<open>The specified properties\<close>

text \<open>
  C1. The name \<^verbatim>\<open>constructor\<close> is none of the five themes, yet \<^verbatim>\<open>themeColors[name]\<close>
  finds the member inherited from \<^verbatim>\<open>Object.prototype\<close>, so the fall-back to the dark
  palette is not taken: the colours read \<^verbatim>\<open>undefined\<close> and the document differs from
  the dark one. Lemmas \<open>green_document\<close> and \<open>unknown_theme_document\<close> give the palette of
  \<^verbatim>\<open>green\<close> and the fall-back for every name that is neither a theme nor inherited.
\<close>

theorem inherited_name_is_not_dark:
  "lit ''constructor'' \<notin> set (map (\<lambda>(name, p). lit name) themeColors) \<and>
   selectColors (lit ''constructor'') = PrototypeMember \<and>
   sublist (lit ''undefined'' @ lit '','' @ lit ''undefined'')
     (portfolioHTML (d\<lparr>theme := lit ''constructor''\<rparr>)) \<and>
   portfolioHTML (d\<lparr>theme := lit ''constructor''\<rparr>) \<noteq> portfolioHTML (d\<lparr>theme := lit ''dark''\<rparr>)"
proof (intro conjI)
  show "lit ''constructor'' \<notin> set (map (\<lambda>(name, p). lit name) themeColors)"
    by (simp add: themeColors_def lit_eq_iff)
  show "selectColors (lit ''constructor'') = PrototypeMember"
    by (rule selectColors_constructor)
  show "sublist (lit ''undefined'' @ lit '','' @ lit ''undefined'')
     (portfolioHTML (d\<lparr>theme := lit ''constructor''\<rparr>))"
    using sublist_document(1) [OF gradient_in_styleBase, of "d\<lparr>theme := lit ''constructor''\<rparr>"]
    by (simp add: selectColors_constructor)
  show "portfolioHTML (d\<lparr>theme := lit ''constructor''\<rparr>) \<noteq> portfolioHTML (d\<lparr>theme := lit ''dark''\<rparr>)"
    by (simp add: portfolioHTML_def Let_def styleBase_def selectColors_constructor
        selectColors_dark themeColorsDark_def lit_Cons [of "CHR ''u''"] lit_Cons [of "CHR ''#''"])
qed

text \<open>
  C2, as amended. Both step functions change \<^verbatim>\<open>portfolioCurrentStep\<close> without looking at
  its bounds; what keeps the step in range is that \<^verbatim>\<open>showPortfolioStep\<close> hides the Previous
  button on step 1 and the Next button on step 8. On a page with the eight step sections,
  every state reached by clicking the two buttons while they are displayed, with any
  other use of the builder in between (edits of the form, the lists, the project cards,
  the dialog, generations and their callbacks), has its step between 1 and
  \<^verbatim>\<open>portfolioTotalSteps\<close>.
\<close>

theorem step_within_bounds:
  "visited s \<Longrightarrow> 1 \<le> portfolioCurrentStep s \<and> portfolioCurrentStep s \<le> portfolioTotalSteps"
  using visited_invariant [of s] by (simp add: portfolioTotalSteps_def)

theorem step_within_bounds_witness:
  "visited stepTwoPage \<and> portfolioCurrentStep stepTwoPage = 2 \<and>
   1 \<le> portfolioCurrentStep stepTwoPage \<and> portfolioCurrentStep stepTwoPage \<le> portfolioTotalSteps \<and>
   visited busyPage \<and> portfolioCurrentStep busyPage = 1 \<and>
   1 \<le> portfolioCurrentStep busyPage \<and> portfolioCurrentStep busyPage \<le> portfolioTotalSteps"
proof -
  let ?l = "loadedPage eightSections"
  have v: "visited ?l"
    by (rule visited.loaded) (simp add: wellFormed_def eightSections_def)
  have n: "nextBtnShown ?l"
    by (simp add: page_eval)
  have v2: "visited stepTwoPage"
    unfolding stepTwoPage_def using v n by (rule visited.nextClicked)
  have s2: "portfolioCurrentStep stepTwoPage = 2"
    by (simp add: stepTwoPage_def page_eval)
  have "visited (?l\<lparr>stepSections := stepSections ?l, portfolioSkillInput := lit '' React'',
      portfolioCertName := portfolioCertName ?l, portfolioCertIssuer := portfolioCertIssuer ?l,
      portfolioCertImage := portfolioCertImage ?l, portfolioWorkTitle := portfolioWorkTitle ?l,
      portfolioWorkCompany := portfolioWorkCompany ?l, portfolioWorkDesc := portfolioWorkDesc ?l,
      focused := focused ?l\<rparr>)"
    using v by (rule visited.edited) simp
  then have "visited typedSkillPage" by (simp add: typedSkillPage_def)
  then have a: "visited (addPortfolioSkill typedSkillPage)" by (rule visited.skillAdded)
  have "nextBtnShown (addPortfolioSkill typedSkillPage)"
    by (simp add: typedSkillPage_def addPortfolioSkill_def page_eval)
  with a have b: "visited (snd (nextPortfolioStep (addPortfolioSkill typedSkillPage)))"
    by (rule visited.nextClicked)
  let ?g = "generatePortfolioHTML False blankSnapshot
     (snd (nextPortfolioStep (addPortfolioSkill typedSkillPage)))"
  have g: "visited ?g" using b by (rule visited.generated)
  have t: "timers ?g = [ResetForm]"
    by (simp add: generatePortfolioHTML_def closePortfolioModal_def typedSkillPage_def
        addPortfolioSkill_def indexOf_def page_eval)
  have k: "stepSections ?g = eightSections"
    by (simp add: generatePortfolioHTML_def closePortfolioModal_def typedSkillPage_def
        addPortfolioSkill_def indexOf_def page_eval)
  have "visited (fireTimer True (blankPage eightSections) eightSections
     (?g\<lparr>timers := take 0 (timers ?g) @ drop (Suc 0) (timers ?g)\<rparr>) (timers ?g ! 0))"
    using g by (rule visited.timerFired) (simp_all add: t k blankPage_def)
  then have v3: "visited busyPage"
    by (simp add: t busyPage_def)
  have s3: "portfolioCurrentStep busyPage = 1"
    by (simp add: busyPage_def resetTimeout_def page_eval)
  from v2 s2 v3 s3 step_within_bounds [of stepTwoPage] step_within_bounds [of busyPage]
  show ?thesis by simp
qed

text \<open>
  C2 as stated fails: \<^verbatim>\<open>previousPortfolioStep\<close> called on the freshly loaded page takes
  the step to 0.
\<close>

theorem retreat_leaves_bounds:
  "called (snd (previousPortfolioStep (loadedPage eightSections))) \<and>
   \<not> 1 \<le> portfolioCurrentStep (snd (previousPortfolioStep (loadedPage eightSections)))"
proof
  have "called (loadedPage eightSections)"
    by (rule called.atLoad) (simp add: wellFormed_def eightSections_def)
  then show "called (snd (previousPortfolioStep (loadedPage eightSections)))"
    by (rule called.prevCalled)
  show "\<not> 1 \<le> portfolioCurrentStep (snd (previousPortfolioStep (loadedPage eightSections)))"
    by (simp add: page_eval)
qed

text \<open>
  C3, as amended. For a step whose section exists, validation fails exactly when a required
  control of the section is blank after trimming, or the step is 2 and no domain is
  chosen. When validation of the current step fails, \<^verbatim>\<open>nextPortfolioStep\<close> keeps the step
  and raises one alert. If a required control is blank, the first blank one receives the
  focus; if only the domain is missing, the focus stays where it was.
\<close>

theorem validation_failure:
  assumes "requiredInputs s step = Some inputs"
    and "requiredInputs s (portfolioCurrentStep s) = Some current"
  shows
   "(fst (validatePortfolioStep step s) = Normal False \<longleftrightarrow>
       (\<exists>v\<in>set inputs. trim v = []) \<or> (step = 2 \<and> portfolioSelectedDomain s = [])) \<and>
    (fst (validatePortfolioStep step s) = Normal True \<longleftrightarrow>
       \<not> ((\<exists>v\<in>set inputs. trim v = []) \<or> (step = 2 \<and> portfolioSelectedDomain s = []))) \<and>
    (fst (validatePortfolioStep (portfolioCurrentStep s) s) = Normal False \<longrightarrow>
       portfolioCurrentStep (snd (nextPortfolioStep s)) = portfolioCurrentStep s \<and>
       length (alerts (snd (nextPortfolioStep s))) = length (alerts s) + 1) \<and>
    ((\<exists>v\<in>set current. trim v = []) \<longrightarrow>
       alerts (snd (nextPortfolioStep s)) =
         alerts s @ [lit ''Please fill in all required fields''] \<and>
       (\<exists>i<length current. trim (current ! i) = [] \<and> (\<forall>j<i. trim (current ! j) \<noteq> []) \<and>
          focused (snd (nextPortfolioStep s)) = Some (portfolioCurrentStep s, i))) \<and>
    ((\<forall>v\<in>set current. trim v \<noteq> []) \<and> portfolioCurrentStep s = 2 \<and>
       portfolioSelectedDomain s = [] \<longrightarrow>
       alerts (snd (nextPortfolioStep s)) = alerts s @ [lit ''Please select a domain''] \<and>
       focused (snd (nextPortfolioStep s)) = focused s)"
proof (intro conjI impI)
  show "fst (validatePortfolioStep step s) = Normal False \<longleftrightarrow>
       (\<exists>v\<in>set inputs. trim v = []) \<or> (step = 2 \<and> portfolioSelectedDomain s = [])"
    using firstBlank_None [of 0 inputs]
    by (auto simp: validate_result [OF assms(1)] split: option.splits)
  show "fst (validatePortfolioStep step s) = Normal True \<longleftrightarrow>
       \<not> ((\<exists>v\<in>set inputs. trim v = []) \<or> (step = 2 \<and> portfolioSelectedDomain s = []))"
    using firstBlank_None [of 0 inputs]
    by (auto simp: validate_result [OF assms(1)] split: option.splits)
next
  assume "fst (validatePortfolioStep (portfolioCurrentStep s) s) = Normal False"
  then show "portfolioCurrentStep (snd (nextPortfolioStep s)) = portfolioCurrentStep s"
    and "length (alerts (snd (nextPortfolioStep s))) = length (alerts s) + 1"
    by (auto simp: nextPortfolioStep_cases validate_result [OF assms(2)]
        split: option.splits if_splits)
next
  assume b: "\<exists>v\<in>set current. trim v = []"
  then obtain i where i: "firstBlank 0 current = Some i"
    using firstBlank_None [of 0 current] by auto
  then show "alerts (snd (nextPortfolioStep s)) =
         alerts s @ [lit ''Please fill in all required fields'']"
    by (simp add: nextPortfolioStep_cases validate_result [OF assms(2)])
  from firstBlank_Some [OF i] i
  show "\<exists>i<length current. trim (current ! i) = [] \<and> (\<forall>j<i. trim (current ! j) \<noteq> []) \<and>
          focused (snd (nextPortfolioStep s)) = Some (portfolioCurrentStep s, i)"
    by (auto simp: nextPortfolioStep_cases validate_result [OF assms(2)])
next
  assume a: "(\<forall>v\<in>set current. trim v \<noteq> []) \<and> portfolioCurrentStep s = 2 \<and>
       portfolioSelectedDomain s = []"
  then have n: "firstBlank 0 current = None" by (simp add: firstBlank_None)
  have v: "validatePortfolioStep (portfolioCurrentStep s) s =
             (Normal False, s\<lparr>alerts := alerts s @ [lit ''Please select a domain'']\<rparr>)"
    using validate_result [OF assms(2)] n a by simp
  show "alerts (snd (nextPortfolioStep s)) = alerts s @ [lit ''Please select a domain'']"
    and "focused (snd (nextPortfolioStep s)) = focused s"
    by (simp_all add: nextPortfolioStep_cases v)
qed

theorem validation_failure_witness:
  "requiredInputs blankFieldPage 1 = Some [lit ''Ada Lovelace'', lit ''  '', []] \<and>
   portfolioCurrentStep blankFieldPage = 1 \<and>
   fst (validatePortfolioStep 1 blankFieldPage) = Normal False \<and>
   portfolioCurrentStep (snd (nextPortfolioStep blankFieldPage)) = 1 \<and>
   alerts (snd (nextPortfolioStep blankFieldPage)) = [lit ''Please fill in all required fields''] \<and>
   focused (snd (nextPortfolioStep blankFieldPage)) = Some (1, 1) \<and>
   requiredInputs stepTwoPage 2 = Some [] \<and>
   portfolioCurrentStep stepTwoPage = 2 \<and> portfolioSelectedDomain stepTwoPage = [] \<and>
   alerts (snd (nextPortfolioStep stepTwoPage)) = [lit ''Please select a domain''] \<and>
   focused (snd (nextPortfolioStep stepTwoPage)) = focused stepTwoPage"
proof -
  have a: "requiredInputs blankFieldPage 1 = Some [lit ''Ada Lovelace'', lit ''  '', []]"
    by (simp add: blankFieldPage_def page_eval)
  have b: "portfolioCurrentStep blankFieldPage = 1"
    by (simp add: blankFieldPage_def page_eval)
  have c: "requiredInputs stepTwoPage 2 = Some []"
    by (simp add: stepTwoPage_def page_eval)
  have d: "portfolioCurrentStep stepTwoPage = 2"
    by (simp add: stepTwoPage_def page_eval)
  have e: "portfolioSelectedDomain stepTwoPage = []" "alerts stepTwoPage = []"
    by (simp_all add: stepTwoPage_def page_eval)
  have f: "alerts blankFieldPage = []"
    by (simp add: blankFieldPage_def page_eval)
  have g: "trim (lit ''Ada Lovelace'') \<noteq> []" "trim (lit ''  '') = []"
    by (simp_all add: trim_def lit_def isWhiteSpace_def)
  show ?thesis
    using validation_failure [of blankFieldPage 1 "[lit ''Ada Lovelace'', lit ''  '', []]"
        "[lit ''Ada Lovelace'', lit ''  '', []]"]
      validation_failure [of stepTwoPage 2 "[]" "[]"] a b c d e f g
    by (auto simp: less_Suc_eq)
qed

text \<open>
  C3 as stated fails: on step 2 with no domain chosen and no blank required control,
  validation fails and no control is given the focus.
\<close>

theorem domain_failure_gives_no_focus:
  "portfolioCurrentStep stepTwoPage = 2 \<and>
   fst (validatePortfolioStep 2 stepTwoPage) = Normal False \<and>
   focused (snd (nextPortfolioStep stepTwoPage)) = None"
  by (simp add: stepTwoPage_def page_eval)

text \<open>
  C4. \<^verbatim>\<open>addPortfolioSkill\<close> changes nothing when the trimmed input is empty or already in
  the list. On a list built by the add and remove functions every element is its own
  trimmed form, so there the same holds for an input that is itself in the list; and
  adding an input twice leaves exactly one occurrence of its trimmed form.
\<close>

theorem addSkill_blank_or_present:
  "(trim v = [] \<or> trim v \<in> set (portfolioSkills s) \<longrightarrow>
      addPortfolioSkill (s\<lparr>portfolioSkillInput := v\<rparr>) = s\<lparr>portfolioSkillInput := v\<rparr>) \<and>
   (builtSkills (portfolioSkills s) \<and> v \<in> set (portfolioSkills s) \<longrightarrow>
      addPortfolioSkill (s\<lparr>portfolioSkillInput := v\<rparr>) = s\<lparr>portfolioSkillInput := v\<rparr>) \<and>
   (builtSkills (portfolioSkills s) \<and> trim v \<noteq> [] \<longrightarrow>
      count_list
        (portfolioSkills
          (addPortfolioSkill ((addPortfolioSkill (s\<lparr>portfolioSkillInput := v\<rparr>))\<lparr>portfolioSkillInput := v\<rparr>)))
        (trim v) = 1)"
proof (intro conjI impI)
  assume "trim v = [] \<or> trim v \<in> set (portfolioSkills s)"
  then show "addPortfolioSkill (s\<lparr>portfolioSkillInput := v\<rparr>) = s\<lparr>portfolioSkillInput := v\<rparr>"
    by (auto simp: addPortfolioSkill_def Let_def indexOf_absent)
next
  assume a: "builtSkills (portfolioSkills s) \<and> v \<in> set (portfolioSkills s)"
  then have "trim v = v" using builtSkills_invariant by blast
  with a show "addPortfolioSkill (s\<lparr>portfolioSkillInput := v\<rparr>) = s\<lparr>portfolioSkillInput := v\<rparr>"
    by (auto simp: addPortfolioSkill_def Let_def indexOf_absent)
next
  assume a: "builtSkills (portfolioSkills s) \<and> trim v \<noteq> []"
  then have d: "distinct (portfolioSkills s)" using builtSkills_invariant by blast
  show "count_list
        (portfolioSkills
          (addPortfolioSkill ((addPortfolioSkill (s\<lparr>portfolioSkillInput := v\<rparr>))\<lparr>portfolioSkillInput := v\<rparr>)))
        (trim v) = 1"
  proof (cases "trim v \<in> set (portfolioSkills s)")
    case True
    then have "count_list (portfolioSkills s) (trim v) = 1"
      using d by (simp add: count_list_distinct)
    with True a show ?thesis by (simp add: addPortfolioSkill_skills)
  next
    case False
    with a show ?thesis by (simp add: addPortfolioSkill_skills)
  qed
qed

theorem addSkill_blank_or_present_witness:
  "trim (lit ''React'') \<in> set (portfolioSkills reactPage) \<and>
   builtSkills (portfolioSkills reactPage) \<and> lit ''React'' \<in> set (portfolioSkills reactPage) \<and>
   trim (lit ''React'') \<noteq> [] \<and>
   addPortfolioSkill (reactPage\<lparr>portfolioSkillInput := lit ''React''\<rparr>) =
     reactPage\<lparr>portfolioSkillInput := lit ''React''\<rparr> \<and>
   count_list
     (portfolioSkills
       (addPortfolioSkill
         ((addPortfolioSkill (reactPage\<lparr>portfolioSkillInput := lit ''React''\<rparr>))
            \<lparr>portfolioSkillInput := lit ''React''\<rparr>)))
     (lit ''React'') = 1"
proof -
  have t: "trim (lit ''React'') = lit ''React''"
    by (simp add: trim_def lit_def isWhiteSpace_def)
  have "builtSkills (portfolioSkills ((blankPage eightSections)\<lparr>portfolioSkillInput := lit '' React''\<rparr>))"
    by (simp add: blankPage_def builtSkills.none)
  then have b: "builtSkills (portfolioSkills reactPage)"
    unfolding reactPage_def by (rule builtSkills.added)
  have m: "lit ''React'' \<in> set (portfolioSkills reactPage)"
    by (simp add: reactPage_skills)
  have n: "lit ''React'' \<noteq> []" by (simp add: lit_def)
  show ?thesis
    using addSkill_blank_or_present [of "lit ''React''" reactPage] t b m n
    by (simp add: reactPage_skills)
qed

text \<open>
  C5. For a position \<open>i\<close> inside the list, each of the three remove functions yields the
  elements before \<open>i\<close> followed by the elements after \<open>i\<close>, and leaves the other two lists
  as they are. Lemma \<open>excise_nth\<close> reads the result element by element.
\<close>

theorem remove_by_index:
  "(0 \<le> i \<and> i < int (length (portfolioSkills s)) \<longrightarrow>
      portfolioSkills (removePortfolioSkill i s) =
        take (nat i) (portfolioSkills s) @ drop (nat i + 1) (portfolioSkills s) \<and>
      portfolioCertificates (removePortfolioSkill i s) = portfolioCertificates s \<and>
      portfolioWorkExperience (removePortfolioSkill i s) = portfolioWorkExperience s) \<and>
   (0 \<le> i \<and> i < int (length (portfolioCertificates s)) \<longrightarrow>
      portfolioCertificates (removePortfolioCert i s) =
        take (nat i) (portfolioCertificates s) @ drop (nat i + 1) (portfolioCertificates s) \<and>
      portfolioSkills (removePortfolioCert i s) = portfolioSkills s \<and>
      portfolioWorkExperience (removePortfolioCert i s) = portfolioWorkExperience s) \<and>
   (0 \<le> i \<and> i < int (length (portfolioWorkExperience s)) \<longrightarrow>
      portfolioWorkExperience (removePortfolioWork i s) =
        take (nat i) (portfolioWorkExperience s) @ drop (nat i + 1) (portfolioWorkExperience s) \<and>
      portfolioSkills (removePortfolioWork i s) = portfolioSkills s \<and>
      portfolioCertificates (removePortfolioWork i s) = portfolioCertificates s)"
  by (simp add: removePortfolioSkill_def removePortfolioCert_def removePortfolioWork_def
      splice1_valid)

theorem remove_by_index_witness:
  "(0::int) \<le> 1 \<and> 1 < int (length (portfolioSkills listsPage)) \<and>
   1 < int (length (portfolioCertificates listsPage)) \<and>
   1 < int (length (portfolioWorkExperience listsPage)) \<and>
   portfolioSkills (removePortfolioSkill 1 listsPage) = [lit ''HTML'', lit ''SQL''] \<and>
   portfolioCertificates (removePortfolioCert 1 listsPage) =
     [\<lparr>c_name = lit ''AWS'', c_issuer = lit ''Amazon'', c_image = None\<rparr>] \<and>
   portfolioWorkExperience (removePortfolioWork 1 listsPage) =
     [\<lparr>w_title = lit ''Intern'', w_company = lit ''Acme'', w_desc = []\<rparr>]"
  using remove_by_index [of 1 listsPage] by (simp add: listsPage_def blankPage_def)

text \<open>
  C6. When the trimmed name and issuer are not empty and the attached file is larger than
  \<open>5 * 1024 * 1024\<close> bytes, \<^verbatim>\<open>addPortfolioCertificate\<close> appends one message to the alerts
  and changes nothing else: the certificates, the pending reads and the three controls
  stay as they were.
\<close>

theorem oversized_image_rejected:
  assumes "trim (portfolioCertName s) \<noteq> []" and "trim (portfolioCertIssuer s) \<noteq> []"
    and "portfolioCertImage s = Some f" and "fileSize f > 5 * 1024 * 1024"
  shows "addPortfolioCertificate s =
           s\<lparr>alerts := alerts s @ [lit ''Image file size should be less than 5MB'']\<rparr> \<and>
         portfolioCertificates (addPortfolioCertificate s) = portfolioCertificates s \<and>
         pendingReads (addPortfolioCertificate s) = pendingReads s \<and>
         length (alerts (addPortfolioCertificate s)) = length (alerts s) + 1"
  using assms by (simp add: addPortfolioCertificate_def Let_def)

theorem oversized_image_rejected_witness:
  "trim (portfolioCertName listsPage) \<noteq> [] \<and> trim (portfolioCertIssuer listsPage) \<noteq> [] \<and>
   portfolioCertImage listsPage =
     Some \<lparr>fileSize = 6000000, fileDataURL = lit ''data:image/png;base64,AAAA''\<rparr> \<and>
   (5 * 1024 * 1024 :: nat) < 6000000 \<and>
   alerts (addPortfolioCertificate listsPage) = [lit ''Image file size should be less than 5MB''] \<and>
   length (portfolioCertificates (addPortfolioCertificate listsPage)) = 2 \<and>
   portfolioCertName (addPortfolioCertificate listsPage) = lit '' AWS ''"
proof -
  have a: "trim (portfolioCertName listsPage) \<noteq> []"
    by (simp add: listsPage_def blankPage_def trim_def lit_def isWhiteSpace_def)
  have b: "trim (portfolioCertIssuer listsPage) \<noteq> []"
    by (simp add: listsPage_def blankPage_def trim_def lit_def isWhiteSpace_def)
  have c: "portfolioCertImage listsPage =
     Some \<lparr>fileSize = 6000000, fileDataURL = lit ''data:image/png;base64,AAAA''\<rparr>"
    by (simp add: listsPage_def blankPage_def)
  have d: "fileSize \<lparr>fileSize = 6000000, fileDataURL = lit ''data:image/png;base64,AAAA''\<rparr>
             > 5 * 1024 * 1024" by simp
  show ?thesis
    using a b c oversized_image_rejected [OF a b c d]
    by (simp add: listsPage_def blankPage_def)
qed

text \<open>
  C7, as amended. The header block, with the name and the title, is in every document.
  Each of the five optional sections is in the document whenever the data behind it is
  not empty. A section whose data is empty is not in the document, provided that no text
  of the snapshot holds the opening of that section (the \<^verbatim>\<open><section>\<close> tag with the
  heading) itself. For any snapshot with all five empty the generator puts together the
  style sheet, the header, the contact block and the footer, and nothing else.
\<close>

theorem sections_follow_data:
  "sublist (headerHTML d) (portfolioHTML d) \<and>
   sublist (lit ''<h1>'' @ fullName d @ lit ''</h1><p class=\"tagline\">'' @ title d @ lit ''</p>'')
     (headerHTML d) \<and>
   (skills d \<noteq> [] \<longrightarrow> sublist (sectionOpen ''Skills & Expertise'') (portfolioHTML d)) \<and>
   (avoids (sectionOpen ''Skills & Expertise'') d \<and> skills d = [] \<longrightarrow>
      \<not> sublist (sectionOpen ''Skills & Expertise'') (portfolioHTML d)) \<and>
   (projects d \<noteq> [] \<longrightarrow> sublist (sectionOpen ''Featured Projects'') (portfolioHTML d)) \<and>
   (avoids (sectionOpen ''Featured Projects'') d \<and> projects d = [] \<longrightarrow>
      \<not> sublist (sectionOpen ''Featured Projects'') (portfolioHTML d)) \<and>
   (workExperience d \<noteq> [] \<longrightarrow> sublist (sectionOpen ''Work Experience'') (portfolioHTML d)) \<and>
   (avoids (sectionOpen ''Work Experience'') d \<and> workExperience d = [] \<longrightarrow>
      \<not> sublist (sectionOpen ''Work Experience'') (portfolioHTML d)) \<and>
   (certificates d \<noteq> [] \<longrightarrow> sublist (sectionOpen ''Certificates & Achievements'') (portfolioHTML d)) \<and>
   (avoids (sectionOpen ''Certificates & Achievements'') d \<and> certificates d = [] \<longrightarrow>
      \<not> sublist (sectionOpen ''Certificates & Achievements'') (portfolioHTML d)) \<and>
   (education d \<noteq> [] \<longrightarrow> sublist (sectionOpen ''Education'') (portfolioHTML d)) \<and>
   (avoids (sectionOpen ''Education'') d \<and> education d = [] \<longrightarrow>
      \<not> sublist (sectionOpen ''Education'') (portfolioHTML d)) \<and>
   (skills d = [] \<and> projects d = [] \<and> workExperience d = [] \<and> certificates d = [] \<and>
    education d = [] \<longrightarrow>
      portfolioHTML d =
        (let c = selectColors (theme d) in
         styleBase d c @ styleProfile c @ styleSkills c @ styleProjects c @ styleCerts c @
         styleWork c @ styleContact c @ styleFooter @
         headerHTML d @ lit ''<div class=\"container\">'' @
         contactOpen @ contactEntries d @ contactClose @ footerHTML d))"
proof (intro conjI impI)
  assume "skills d = [] \<and> projects d = [] \<and> workExperience d = [] \<and> certificates d = [] \<and>
    education d = []"
  then show "portfolioHTML d =
        (let c = selectColors (theme d) in
         styleBase d c @ styleProfile c @ styleSkills c @ styleProjects c @ styleCerts c @
         styleWork c @ styleContact c @ styleFooter @
         headerHTML d @ lit ''<div class=\"container\">'' @
         contactOpen @ contactEntries d @ contactClose @ footerHTML d)"
    by (simp add: portfolioHTML_def Let_def skillsSection_def projectsSection_def
        workSection_def certsSection_def educationSection_def)
next
  show "sublist (headerHTML d) (portfolioHTML d)"
    by (rule sublist_document) simp
  show "sublist (lit ''<h1>'' @ fullName d @ lit ''</h1><p class=\"tagline\">'' @ title d @ lit ''</p>'')
     (headerHTML d)"
    using headerName_in_header [of d] by (simp add: headerName_def)
next
  assume "skills d \<noteq> []"
  then have "prefix (sectionOpen ''Skills & Expertise'') (skillsSection d)"
    by (rule section_opens)
  then have "sublist (sectionOpen ''Skills & Expertise'') (skillsSection d)"
    by (rule prefix_imp_sublist)
  then show "sublist (sectionOpen ''Skills & Expertise'') (portfolioHTML d)"
    by (rule sublist_document)
next
  assume "avoids (sectionOpen ''Skills & Expertise'') d \<and> skills d = []"
  then have "transparent (sectionOpen ''Skills & Expertise'') (portfolioHTML d)"
    by (blast intro: skills_opening_absent)
  then show "\<not> sublist (sectionOpen ''Skills & Expertise'') (portfolioHTML d)"
    using sectionOpen_nonempty by (rule transparent_absent)
next
  assume "projects d \<noteq> []"
  then have "prefix (sectionOpen ''Featured Projects'') (projectsSection d)"
    by (rule section_opens)
  then have "sublist (sectionOpen ''Featured Projects'') (projectsSection d)"
    by (rule prefix_imp_sublist)
  then show "sublist (sectionOpen ''Featured Projects'') (portfolioHTML d)"
    by (rule sublist_document)
next
  assume "avoids (sectionOpen ''Featured Projects'') d \<and> projects d = []"
  then have "transparent (sectionOpen ''Featured Projects'') (portfolioHTML d)"
    by (blast intro: projects_opening_absent)
  then show "\<not> sublist (sectionOpen ''Featured Projects'') (portfolioHTML d)"
    using sectionOpen_nonempty by (rule transparent_absent)
next
  assume "workExperience d \<noteq> []"
  then have "prefix (sectionOpen ''Work Experience'') (workSection d)"
    by (rule section_opens)
  then have "sublist (sectionOpen ''Work Experience'') (workSection d)"
    by (rule prefix_imp_sublist)
  then show "sublist (sectionOpen ''Work Experience'') (portfolioHTML d)"
    by (rule sublist_document)
next
  assume "avoids (sectionOpen ''Work Experience'') d \<and> workExperience d = []"
  then have "transparent (sectionOpen ''Work Experience'') (portfolioHTML d)"
    by (blast intro: work_opening_absent)
  then show "\<not> sublist (sectionOpen ''Work Experience'') (portfolioHTML d)"
    using sectionOpen_nonempty by (rule transparent_absent)
next
  assume "certificates d \<noteq> []"
  then have "prefix (sectionOpen ''Certificates & Achievements'') (certsSection d)"
    by (rule section_opens)
  then have "sublist (sectionOpen ''Certificates & Achievements'') (certsSection d)"
    by (rule prefix_imp_sublist)
  then show "sublist (sectionOpen ''Certificates & Achievements'') (portfolioHTML d)"
    by (rule sublist_document)
next
  assume "avoids (sectionOpen ''Certificates & Achievements'') d \<and> certificates d = []"
  then have "transparent (sectionOpen ''Certificates & Achievements'') (portfolioHTML d)"
    by (blast intro: certs_opening_absent)
  then show "\<not> sublist (sectionOpen ''Certificates & Achievements'') (portfolioHTML d)"
    using sectionOpen_nonempty by (rule transparent_absent)
next
  assume "education d \<noteq> []"
  then have "prefix (sectionOpen ''Education'') (educationSection d (selectColors (theme d)))"
    by (rule section_opens)
  then have "sublist (sectionOpen ''Education'') (educationSection d (selectColors (theme d)))"
    by (rule prefix_imp_sublist)
  then show "sublist (sectionOpen ''Education'') (portfolioHTML d)"
    by (rule sublist_document)
next
  assume "avoids (sectionOpen ''Education'') d \<and> education d = []"
  then have "transparent (sectionOpen ''Education'') (portfolioHTML d)"
    by (blast intro: education_opening_absent)
  then show "\<not> sublist (sectionOpen ''Education'') (portfolioHTML d)"
    using sectionOpen_nonempty by (rule transparent_absent)
qed

theorem sections_follow_data_witness:
  "avoids (sectionOpen ''Skills & Expertise'') markupSnapshot \<and>
   \<not> plainText (bio markupSnapshot) \<and>
   sublist (sectionOpen ''Skills & Expertise'') (portfolioHTML markupSnapshot) \<and>
   avoids (sectionOpen ''Featured Projects'') markupSnapshot \<and>
   \<not> sublist (sectionOpen ''Featured Projects'') (portfolioHTML markupSnapshot) \<and>
   avoids (sectionOpen ''Work Experience'') markupSnapshot \<and>
   \<not> sublist (sectionOpen ''Work Experience'') (portfolioHTML markupSnapshot) \<and>
   avoids (sectionOpen ''Certificates & Achievements'') markupSnapshot \<and>
   \<not> sublist (sectionOpen ''Certificates & Achievements'') (portfolioHTML markupSnapshot) \<and>
   avoids (sectionOpen ''Education'') markupSnapshot \<and>
   \<not> sublist (sectionOpen ''Education'') (portfolioHTML markupSnapshot) \<and>
   avoids (sectionOpen ''Skills & Expertise'') adaSnapshot \<and>
   skills adaSnapshot = [] \<and> projects adaSnapshot = [] \<and>
   workExperience adaSnapshot = [] \<and> certificates adaSnapshot = [] \<and>
   education adaSnapshot = [] \<and>
   \<not> sublist (sectionOpen ''Skills & Expertise'') (portfolioHTML adaSnapshot) \<and>
   sublist (headerHTML adaSnapshot) (portfolioHTML adaSnapshot) \<and>
   portfolioHTML adaSnapshot =
     (let c = selectColors (theme adaSnapshot) in
      styleBase adaSnapshot c @ styleProfile c @ styleSkills c @ styleProjects c @ styleCerts c @
      styleWork c @ styleContact c @ styleFooter @
      headerHTML adaSnapshot @ lit ''<div class=\"container\">'' @
      contactOpen @ contactEntries adaSnapshot @ contactClose @ footerHTML adaSnapshot)"
proof -
  have e: "skills adaSnapshot = []" "projects adaSnapshot = []" "workExperience adaSnapshot = []"
    "certificates adaSnapshot = []" "education adaSnapshot = []"
    by (simp_all add: adaSnapshot_def blankSnapshot_def)
  have s: "skills markupSnapshot \<noteq> []" "projects markupSnapshot = []"
    "workExperience markupSnapshot = []" "certificates markupSnapshot = []"
    "education markupSnapshot = []"
    by (simp_all add: markupSnapshot_def skilledSnapshot_def adaSnapshot_def blankSnapshot_def)
  have b: "\<not> plainText (bio markupSnapshot)"
    by (simp add: markupSnapshot_def plainText_def lit_def)
  note a = avoids_markupSnapshot [of "''Skills & Expertise''"]
    avoids_markupSnapshot [of "''Featured Projects''"]
    avoids_markupSnapshot [of "''Work Experience''"]
    avoids_markupSnapshot [of "''Certificates & Achievements''"]
    avoids_markupSnapshot [of "''Education''"]
    avoids_adaSnapshot [of "''Skills & Expertise''"]
  show ?thesis
    using sections_follow_data [of markupSnapshot] sections_follow_data [of adaSnapshot] a e s b
    by blast
qed

text \<open>
  C7 as stated fails: a name that holds the markup of a skills section puts that markup
  into the document of a snapshot without skills.
\<close>

theorem markup_in_name_shows_section:
  "skills injectedSnapshot = [] \<and> projects injectedSnapshot = [] \<and>
   certificates injectedSnapshot = [] \<and> workExperience injectedSnapshot = [] \<and>
   education injectedSnapshot = [] \<and>
   sublist (skillsSection (blankSnapshot\<lparr>skills := [lit ''SQL'']\<rparr>))
     (portfolioHTML injectedSnapshot) \<and>
   sublist (sectionOpen ''Skills & Expertise'') (portfolioHTML injectedSnapshot)"
proof -
  have f: "fullName injectedSnapshot = skillsSection (blankSnapshot\<lparr>skills := [lit ''SQL'']\<rparr>)"
    by (simp add: injectedSnapshot_def)
  have a: "sublist (skillsSection (blankSnapshot\<lparr>skills := [lit ''SQL'']\<rparr>))
     (portfolioHTML injectedSnapshot)"
    using sublist_document(1) [OF fullName_in_styleBase, of injectedSnapshot] f by simp
  have "prefix (sectionOpen ''Skills & Expertise'') (skillsSection (blankSnapshot\<lparr>skills := [lit ''SQL'']\<rparr>))"
    by (rule section_opens) simp
  then have "sublist (sectionOpen ''Skills & Expertise'') (fullName injectedSnapshot)"
    using f by (simp add: prefix_imp_sublist)
  then have "sublist (sectionOpen ''Skills & Expertise'') (styleBase injectedSnapshot (selectColors (theme injectedSnapshot)))"
    unfolding styleBase_def by (intro sublist_skip sublist_first)
  then have b: "sublist (sectionOpen ''Skills & Expertise'') (portfolioHTML injectedSnapshot)"
    by (rule sublist_document)
  show ?thesis
    using a b by (simp add: injectedSnapshot_def blankSnapshot_def)
qed

text \<open>
  C8. The document handed to the preview window and to the download is
  \<open>portfolioHTML d\<close>, a function of the snapshot alone: whatever the state of the page
  at the two calls, the same snapshot gives the same string.
\<close>

theorem generation_deterministic:
  "previews (generatePortfolioHTML True d s) = previews s @ [portfolioHTML d] \<and>
   previews (generatePortfolioHTML True d s') = previews s' @ [portfolioHTML d] \<and>
   downloads (generationCompleted True True pristine rebuilt d s) =
     downloads s @ [(replaceSpaces (fullName d) @ lit ''_Portfolio.html'', portfolioHTML d)] \<and>
   downloads (generationCompleted True True pristine' rebuilt' d s') =
     downloads s' @ [(replaceSpaces (fullName d) @ lit ''_Portfolio.html'', portfolioHTML d)]"
  by (simp add: generatePortfolioHTML_def generationCompleted_def downloadTimeout_def Let_def
      closePortfolioModal_def resetTimeout_def showPortfolioStep_def requiredInputs_def
      split: option.splits)

text \<open>
  C9. Every call of the generator schedules the reset callback, and once the callbacks of
  the call have run the five globals hold their initial values, whether or not a window
  was opened and whatever the answer to the download prompt was. The reset callback
  gives the globals these values from any state.
\<close>

theorem state_reset_after_generation:
  "wizardStateOf (generationCompleted opened confirmed pristine rebuilt d s) = initialWizardState \<and>
   portfolioSkills (generationCompleted opened confirmed pristine rebuilt d s) = [] \<and>
   portfolioCertificates (generationCompleted opened confirmed pristine rebuilt d s) = [] \<and>
   portfolioWorkExperience (generationCompleted opened confirmed pristine rebuilt d s) = [] \<and>
   portfolioProjectCount (generationCompleted opened confirmed pristine rebuilt d s) = 1 \<and>
   portfolioCurrentStep (generationCompleted opened confirmed pristine rebuilt d s) = 1 \<and>
   ResetForm \<in> set (timers (generatePortfolioHTML opened d s)) \<and>
   wizardStateOf (snd (resetTimeout pristine rebuilt s')) = initialWizardState"
proof -
  have "wizardStateOf (generationCompleted opened confirmed pristine rebuilt d s) = initialWizardState"
    by (cases opened)
      (simp_all add: generationCompleted_def generatePortfolioHTML_def closePortfolioModal_def
        Let_def resetTimeout_globals)
  then show ?thesis
    by (simp add: wizardStateOf_def initialWizardState_def resetTimeout_globals [unfolded wizardStateOf_def initialWizardState_def]
        generatePortfolioHTML_def closePortfolioModal_def Let_def)
qed

text \<open>
  C10. Every document contains the contact block: the opening of the section with the
  heading \<^verbatim>\<open>Get In Touch\<close>, the introductory line and the opening of the grid; then, in this
  order, the entries for the address, the telephone, the location, LinkedIn, GitHub, the
  website and Twitter, each of them present exactly when its field is not empty; then the
  closing of the grid, of the section and of the container. With all seven fields empty
  the opening is followed at once by the closing.
\<close>

theorem contact_section_always:
  \<open>sublist
     (lit (''<section class="contact-section"><h2 class="section-title">Get In Touch</h2>'' @
           ''<p style="opacity:0.9;margin-bottom:20px">'' @
           ''Let's connect and discuss opportunities!</p><div class="contact-grid">'') @
      (if email d \<noteq> [] then
         lit ''<a href="mailto:'' @ email d @ lit ''" class="contact-item">'' @
         [0xD83D, 0xDCE7] @ lit '' Email</a>''
       else []) @
      (if phone d \<noteq> [] then
         lit ''<a href="tel:'' @ phone d @ lit ''" class="contact-item">'' @
         [0xD83D, 0xDCF1] @ lit '' Phone</a>''
       else []) @
      (if location d \<noteq> [] then
         lit ''<span class="contact-item">'' @ [0xD83D, 0xDCCD] @ lit '' '' @ location d @
         lit ''</span>''
       else []) @
      (if linkedin d \<noteq> [] then
         lit ''<a href="'' @ linkedin d @ lit ''" target="_blank" class="contact-item">'' @
         [0xD83D, 0xDCBC] @ lit '' LinkedIn</a>''
       else []) @
      (if github d \<noteq> [] then
         lit ''<a href="'' @ github d @ lit ''" target="_blank" class="contact-item">'' @
         [0xD83D, 0xDCBB] @ lit '' GitHub</a>''
       else []) @
      (if website d \<noteq> [] then
         lit ''<a href="'' @ website d @ lit ''" target="_blank" class="contact-item">'' @
         [0xD83C, 0xDF10] @ lit '' Website</a>''
       else []) @
      (if twitter d \<noteq> [] then
         lit ''<a href="'' @ twitter d @ lit ''" target="_blank" class="contact-item">'' @
         [0xD83D, 0xDC26] @ lit '' Twitter</a>''
       else []) @
      lit ''</div></section></div>'')
     (portfolioHTML d) \<and>
   (email d = [] \<and> phone d = [] \<and> location d = [] \<and> linkedin d = [] \<and> github d = [] \<and>
    website d = [] \<and> twitter d = [] \<longrightarrow>
      sublist
        (lit (''<section class="contact-section"><h2 class="section-title">Get In Touch</h2>'' @
              ''<p style="opacity:0.9;margin-bottom:20px">'' @
              ''Let's connect and discuss opportunities!</p><div class="contact-grid">'') @
         lit ''</div></section></div>'')
        (portfolioHTML d))\<close>
proof -
  note block = contact_block_in_document [of d, unfolded contact_block_text]
  show ?thesis
  proof (intro conjI impI)
    show \<open>sublist
     (lit (''<section class="contact-section"><h2 class="section-title">Get In Touch</h2>'' @
           ''<p style="opacity:0.9;margin-bottom:20px">'' @
           ''Let's connect and discuss opportunities!</p><div class="contact-grid">'') @
      (if email d \<noteq> [] then
         lit ''<a href="mailto:'' @ email d @ lit ''" class="contact-item">'' @
         [0xD83D, 0xDCE7] @ lit '' Email</a>''
       else []) @
      (if phone d \<noteq> [] then
         lit ''<a href="tel:'' @ phone d @ lit ''" class="contact-item">'' @
         [0xD83D, 0xDCF1] @ lit '' Phone</a>''
       else []) @
      (if location d \<noteq> [] then
         lit ''<span class="contact-item">'' @ [0xD83D, 0xDCCD] @ lit '' '' @ location d @
         lit ''</span>''
       else []) @
      (if linkedin d \<noteq> [] then
         lit ''<a href="'' @ linkedin d @ lit ''" target="_blank" class="contact-item">'' @
         [0xD83D, 0xDCBC] @ lit '' LinkedIn</a>''
       else []) @
      (if github d \<noteq> [] then
         lit ''<a href="'' @ github d @ lit ''" target="_blank" class="contact-item">'' @
         [0xD83D, 0xDCBB] @ lit '' GitHub</a>''
       else []) @
      (if website d \<noteq> [] then
         lit ''<a href="'' @ website d @ lit ''" target="_blank" class="contact-item">'' @
         [0xD83C, 0xDF10] @ lit '' Website</a>''
       else []) @
      (if twitter d \<noteq> [] then
         lit ''<a href="'' @ twitter d @ lit ''" target="_blank" class="contact-item">'' @
         [0xD83D, 0xDC26] @ lit '' Twitter</a>''
       else []) @
      lit ''</div></section></div>'')
     (portfolioHTML d)\<close>
      by (rule block)
  next
    assume "email d = [] \<and> phone d = [] \<and> location d = [] \<and> linkedin d = [] \<and> github d = [] \<and>
      website d = [] \<and> twitter d = []"
    then have "contactEntries d = []"
      by (simp add: contactEntries_def contact_entry_empty)
    with contact_block_in_document [of d]
    have "sublist (contactOpen @ contactClose) (portfolioHTML d)"
      by simp
    then show \<open>sublist
        (lit (''<section class="contact-section"><h2 class="section-title">Get In Touch</h2>'' @
              ''<p style="opacity:0.9;margin-bottom:20px">'' @
              ''Let's connect and discuss opportunities!</p><div class="contact-grid">'') @
         lit ''</div></section></div>'')
        (portfolioHTML d)\<close>
      by (simp only: contactOpen_def contactClose_def)
  qed
qed

theorem contact_section_always_witness:
  \<open>email blankSnapshot = [] \<and> phone blankSnapshot = [] \<and> location blankSnapshot = [] \<and>
   linkedin blankSnapshot = [] \<and> github blankSnapshot = [] \<and> website blankSnapshot = [] \<and>
   twitter blankSnapshot = [] \<and>
   sublist
     (lit (''<section class="contact-section"><h2 class="section-title">Get In Touch</h2>'' @
           ''<p style="opacity:0.9;margin-bottom:20px">'' @
           ''Let's connect and discuss opportunities!</p><div class="contact-grid">'') @
      lit ''</div></section></div>'')
     (portfolioHTML blankSnapshot) \<and>
   email skilledSnapshot = lit ''ada@example.org'' \<and>
   sublist
     (lit (''<section class="contact-section"><h2 class="section-title">Get In Touch</h2>'' @
           ''<p style="opacity:0.9;margin-bottom:20px">'' @
           ''Let's connect and discuss opportunities!</p><div class="contact-grid">'') @
      lit ''<a href="mailto:'' @ lit ''ada@example.org'' @ lit ''" class="contact-item">'' @
      [0xD83D, 0xDCE7] @ lit '' Email</a>'' @
      lit ''</div></section></div>'')
     (portfolioHTML skilledSnapshot)\<close>
proof -
  have e: "email skilledSnapshot = lit ''ada@example.org''" "phone skilledSnapshot = []"
    "location skilledSnapshot = []" "linkedin skilledSnapshot = []" "github skilledSnapshot = []"
    "website skilledSnapshot = []" "twitter skilledSnapshot = []"
    by (simp_all add: skilledSnapshot_def adaSnapshot_def blankSnapshot_def)
  have n: "lit ''ada@example.org'' \<noteq> []"
    by (simp add: lit_def)
  have b: "email blankSnapshot = []" "phone blankSnapshot = []" "location blankSnapshot = []"
    "linkedin blankSnapshot = []" "github blankSnapshot = []" "website blankSnapshot = []"
    "twitter blankSnapshot = []"
    by (simp_all add: blankSnapshot_def)
  note blank = contact_section_always [of blankSnapshot, THEN conjunct2, rule_format, OF conjI,
      OF b(1) conjI, OF b(2) conjI, OF b(3) conjI, OF b(4) conjI, OF b(5) conjI, OF b(6) b(7)]
  note skilled = contact_section_always [of skilledSnapshot, THEN conjunct1]
  show ?thesis
    apply (intro conjI)
             apply (rule b e blank)+
    apply (insert skilled)
    apply (simp only: e n simp_thms if_True if_False append_Nil append_assoc)
    done
qed

end
